theory Spec2Isabelle
  imports
    Complex_Main
    "HOL-Library.Char_ord"
    "HOL-Library.List_Lexorder"
    "HOL-Library.Product_Lexorder"
    "HOL-Library.Multiset"
begin

section \<open>Strings\<close>

text \<open>
  Python strings are sequences of code points; a \<^typ>\<open>char\<close> stands for a code point
  below 256 (Latin-1). Python floats are idealised as \<^typ>\<open>real\<close>: no rounding, no
  overflow, no NaN.
\<close>

definition isspace :: "char \<Rightarrow> bool" where
  \<comment> \<open>\<open>str.isspace\<close> and the regular expression class \<open>\s\<close> on one code point\<close>
  "isspace c = (of_char c \<in> {9, 10, 11, 12, 13, 28, 29, 30, 31, 32, 133, 160 :: nat})"

definition in_AZ :: "char \<Rightarrow> bool" where
  \<comment> \<open>the regular expression class \<open>[A-Z]\<close>\<close>
  "in_AZ c = (65 \<le> (of_char c :: nat) \<and> (of_char c :: nat) \<le> 90)"

definition lower_char :: "char \<Rightarrow> char" where
  "lower_char c =
     (let n = (of_char c :: nat)
      in if (65 \<le> n \<and> n \<le> 90) \<or> (192 \<le> n \<and> n \<le> 214) \<or> (216 \<le> n \<and> n \<le> 222)
         then char_of (n + 32) else c)"

definition lower :: "string \<Rightarrow> string" where
  \<comment> \<open>\<open>str.lower\<close>\<close>
  "lower s = map lower_char s"

definition strip :: "string \<Rightarrow> string" where
  \<comment> \<open>\<open>str.strip()\<close>\<close>
  "strip s = dropWhile isspace (rev (dropWhile isspace (rev s)))"

definition region_tag_rest :: "string \<Rightarrow> string option" where
  \<comment> \<open>A match of \<open>\s*\([A-Z]{2,3}\)\s*$\<close> that reaches the end of \<open>s\<close>: what stands before
      the opening parenthesis, reversed; \<open>None\<close> when the pattern does not match.\<close>
  "region_tag_rest s =
     (case dropWhile isspace (rev s) of
        c0 # c1 # c2 # c3 # rest \<Rightarrow>
          if c0 = CHR 0x29 \<and> in_AZ c1 \<and> in_AZ c2 \<and> c3 = CHR 0x28 then Some rest
          else (case rest of
                  c4 # rest' \<Rightarrow>
                    if c0 = CHR 0x29 \<and> in_AZ c1 \<and> in_AZ c2 \<and> in_AZ c3 \<and> c4 = CHR 0x28
                    then Some rest' else None
                | [] \<Rightarrow> None)
      | _ \<Rightarrow> None)"

section \<open>Utils\<close>

definition clean_artist_name :: "string \<Rightarrow> string" where
  \<comment> \<open>\<open>re.sub(r'\s*\([A-Z]{2,3}\)\s*$', '', name.strip())\<close>\<close>
  "clean_artist_name name =
     (let s = strip name
      in case region_tag_rest s of
           Some rest \<Rightarrow> rev (dropWhile isspace rest)
         | None \<Rightarrow> s)"

definition has_region_identifier :: "string \<Rightarrow> bool" where
  \<comment> \<open>\<open>bool(re.search(r'\s*\([A-Z]{2,3}\)\s*$', name))\<close>\<close>
  "has_region_identifier name = (region_tag_rest name \<noteq> None)"

definition similarity_score :: "(string \<Rightarrow> string \<Rightarrow> real) \<Rightarrow> string \<Rightarrow> string \<Rightarrow> real" where
  \<comment> \<open>\<open>SequenceMatcher(None, a.lower(), b.lower()).ratio()\<close>; the library's \<open>ratio\<close> of two
      strings is the parameter \<open>ratio\<close>.\<close>
  "similarity_score ratio a b = ratio (lower a) (lower b)"

section \<open>SpotifyClient: the two-tier match\<close>

record artist =
  artist_id :: string
  artist_name :: string
  followers_total :: nat

fun py_max :: "('a \<Rightarrow> 'k::linorder) \<Rightarrow> 'a \<Rightarrow> 'a list \<Rightarrow> 'a" where
  \<comment> \<open>\<open>max(x :: xs, key=key)\<close>: the first element whose key is maximal\<close>
  "py_max key best [] = best"
| "py_max key best (x # xs) = py_max key (if key best < key x then x else best) xs"

fun find_matches ::
  "(string \<Rightarrow> string \<Rightarrow> real) \<Rightarrow> artist list \<Rightarrow> string \<Rightarrow> string \<Rightarrow> bool
     \<Rightarrow> artist list \<times> (artist \<times> real) list" where
  \<comment> \<open>the loop of \<open>_find_best_match\<close>: \<open>(exact_matches, approximate_matches)\<close>\<close>
  "find_matches ratio [] original_name search_name has_region = ([], [])"
| "find_matches ratio (a # artists) original_name search_name has_region =
     (let (exact_matches, approximate_matches) =
            find_matches ratio artists original_name search_name has_region;
          spotify_name = artist_name a
      in if has_region then
           if lower (clean_artist_name spotify_name) = lower search_name
           then (a # exact_matches, approximate_matches)
           else let sim = similarity_score ratio search_name (clean_artist_name spotify_name)
                in if sim > 0.8 then (exact_matches, (a, sim) # approximate_matches)
                   else (exact_matches, approximate_matches)
         else
           if lower spotify_name = lower original_name
           then (a # exact_matches, approximate_matches)
           else let sim = similarity_score ratio original_name spotify_name
                in if sim > 0.6 then (exact_matches, (a, sim) # approximate_matches)
                   else (exact_matches, approximate_matches))"

definition find_best_match ::
  "(string \<Rightarrow> string \<Rightarrow> real) \<Rightarrow> artist list \<Rightarrow> string \<Rightarrow> string \<Rightarrow> bool
     \<Rightarrow> artist option \<times> bool \<times> real" where
  "find_best_match ratio artists original_name search_name has_region =
     (case find_matches ratio artists original_name search_name has_region of
        (e # es, approximate_matches) \<Rightarrow> (Some (py_max followers_total e es), True, 1)
      | ([], p # ps) \<Rightarrow> (let best_match = py_max snd p ps in (Some (fst best_match), False, snd best_match))
      | ([], []) \<Rightarrow> (None, False, 0))"

definition best_match_for ::
  "(string \<Rightarrow> string \<Rightarrow> real) \<Rightarrow> artist list \<Rightarrow> string \<Rightarrow> artist option \<times> bool \<times> real" where
  \<comment> \<open>the call in \<open>search_artist\<close>:
      \<open>self._find_best_match(artists, artist_name, search_name, has_region)\<close>\<close>
  "best_match_for ratio artists name =
     find_best_match ratio artists name (clean_artist_name name) (has_region_identifier name)"

definition exact_matches :: "(string \<Rightarrow> string \<Rightarrow> real) \<Rightarrow> artist list \<Rightarrow> string \<Rightarrow> artist list" where
  "exact_matches ratio artists name =
     fst (find_matches ratio artists name (clean_artist_name name) (has_region_identifier name))"

definition approximate_matches ::
  "(string \<Rightarrow> string \<Rightarrow> real) \<Rightarrow> artist list \<Rightarrow> string \<Rightarrow> (artist \<times> real) list" where
  "approximate_matches ratio artists name =
     snd (find_matches ratio artists name (clean_artist_name name) (has_region_identifier name))"

section \<open>Config\<close>

definition SKIP_THRESHOLD :: real where
  "SKIP_THRESHOLD = 0.70"

definition FESTIVAL_PERFORMER_LIMIT :: nat where
  "FESTIVAL_PERFORMER_LIMIT = 6"

section \<open>Utils.calculate_distance\<close>

text \<open>
  A coordinate as the function receives it: a number, a string, or nothing. What Python's
  \<open>float()\<close> makes of a string is part of the value: \<open>NumText x\<close> is a non-empty string
  that converts to \<open>x\<close>, \<open>BadText\<close> a non-empty value that \<open>float()\<close> rejects, and
  \<open>Absent\<close> is \<open>None\<close> or the empty string.
\<close>

datatype coord = Absent | Num real | NumText real | BadText

datatype distance = Miles real | Unknown  \<comment> \<open>\<open>Unknown\<close> is \<open>float('inf')\<close>\<close>

fun truthy :: "coord \<Rightarrow> bool" where
  \<comment> \<open>Python's truth value, as \<open>all([...])\<close> reads it\<close>
  "truthy Absent = False"
| "truthy (Num x) = (x \<noteq> 0)"
| "truthy (NumText x) = True"
| "truthy BadText = True"

fun to_float :: "coord \<Rightarrow> real option" where
  \<comment> \<open>\<open>float(x)\<close>; \<open>None\<close> when it raises\<close>
  "to_float Absent = None"
| "to_float (Num x) = Some x"
| "to_float (NumText x) = Some x"
| "to_float BadText = None"

definition radians :: "real \<Rightarrow> real" where
  "radians x = x * pi / 180"

definition round2 :: "real \<Rightarrow> real" where
  \<comment> \<open>\<open>round(x, 2)\<close>: to the nearest hundredth, a tie to the even one\<close>
  "round2 x =
     (let y = x * 100; f = \<lfloor>y\<rfloor>
      in if y - of_int f < 1 / 2 then of_int f / 100
         else if y - of_int f > 1 / 2 then of_int (f + 1) / 100
         else if even f then of_int f / 100 else of_int (f + 1) / 100)"

definition calculate_distance :: "coord \<Rightarrow> coord \<Rightarrow> coord \<Rightarrow> coord \<Rightarrow> distance" where
  "calculate_distance lat1 lon1 lat2 lon2 =
     (if \<not> (truthy lat1 \<and> truthy lon1 \<and> truthy lat2 \<and> truthy lon2) then Unknown
      else case (to_float lat1, to_float lon1, to_float lat2, to_float lon2) of
        (Some a1, Some o1, Some a2, Some o2) \<Rightarrow>
          (let lat1 = radians a1; lon1 = radians o1; lat2 = radians a2; lon2 = radians o2;
               dlat = lat2 - lat1; dlon = lon2 - lon1;
               a = (sin (dlat / 2))\<^sup>2 + cos lat1 * cos lat2 * (sin (dlon / 2))\<^sup>2
           in if 0 \<le> a \<and> a \<le> 1 then Miles (round2 (2 * 3956 * arcsin (sqrt a)))
              else Unknown)  \<comment> \<open>\<open>math.sqrt\<close>, \<open>math.asin\<close> raise outside their domain\<close>
      | _ \<Rightarrow> Unknown)"

section \<open>Dates and times\<close>

record pydatetime =
  dt_year :: nat
  dt_month :: nat
  dt_day :: nat
  dt_hour :: nat
  dt_minute :: nat
  dt_second :: nat
  dt_microsecond :: nat
  dt_utcoffset :: "int option"  \<comment> \<open>\<open>None\<close>: a naive datetime (\<open>tzinfo is None\<close>)\<close>

text \<open>
  What the code takes from \<open>datetime\<close> and \<open>pytz\<close> without spelling it out: the ISO parser
  (\<open>None\<close> when it raises), the instant on the UTC time line of a naive datetime localized
  to America/Chicago, and the instant of an aware datetime. Aware datetimes compare by
  their instants.
\<close>

record datetime_lib =
  fromisoformat :: "string \<Rightarrow> pydatetime option"
  localize :: "pydatetime \<Rightarrow> int"
  instant_of :: "pydatetime \<Rightarrow> int"

definition is_digit :: "char \<Rightarrow> bool" where
  "is_digit c = (48 \<le> (of_char c :: nat) \<and> (of_char c :: nat) \<le> 57)"

definition digit_val :: "char \<Rightarrow> nat" where
  "digit_val c = of_char c - 48"

fun split_on :: "char \<Rightarrow> string \<Rightarrow> string list" where
  \<comment> \<open>\<open>s.split(sep)\<close> for a separator of one character\<close>
  "split_on sep [] = [[]]"
| "split_on sep (c # cs) =
     (if c = sep then [] # split_on sep cs
      else (case split_on sep cs of p # ps \<Rightarrow> (c # p) # ps | [] \<Rightarrow> [[c]]))"

definition replace_Z :: "string \<Rightarrow> string" where
  \<comment> \<open>\<open>s.replace('Z', '+00:00')\<close>\<close>
  "replace_Z s = concat (map (\<lambda>c. if c = CHR ''Z'' then ''+00:00'' else [c]) s)"

definition two_digits :: "nat \<Rightarrow> string" where
  "two_digits n = [char_of (48 + n div 10 mod 10), char_of (48 + n mod 10)]"

definition strftime_HM :: "pydatetime \<Rightarrow> string" where
  \<comment> \<open>\<open>dt.strftime('%H:%M')\<close>\<close>
  "strftime_HM dt = two_digits (dt_hour dt) @ '':'' @ two_digits (dt_minute dt)"

definition year_Y :: "string \<Rightarrow> nat option" where
  \<comment> \<open>\<open>%Y\<close>: \<open>\d\d\d\d\<close>\<close>
  "year_Y s =
     (case s of
        [a, b, c, d] \<Rightarrow>
          if is_digit a \<and> is_digit b \<and> is_digit c \<and> is_digit d
          then Some (1000 * digit_val a + 100 * digit_val b + 10 * digit_val c + digit_val d)
          else None
      | _ \<Rightarrow> None)"

definition month_m :: "string \<Rightarrow> nat option" where
  \<comment> \<open>\<open>%m\<close>: \<open>1[0-2]|0[1-9]|[1-9]\<close>\<close>
  "month_m s =
     (case s of
        [a] \<Rightarrow> if is_digit a \<and> a \<noteq> CHR ''0'' then Some (digit_val a) else None
      | [a, b] \<Rightarrow>
          if a = CHR ''1'' \<and> is_digit b \<and> digit_val b \<le> 2 then Some (10 + digit_val b)
          else if a = CHR ''0'' \<and> is_digit b \<and> b \<noteq> CHR ''0'' then Some (digit_val b)
          else None
      | _ \<Rightarrow> None)"

definition day_d :: "string \<Rightarrow> nat option" where
  \<comment> \<open>\<open>%d\<close>: \<open>3[0-1]|[1-2]\d|0[1-9]|[1-9]| [1-9]\<close>\<close>
  "day_d s =
     (case s of
        [a] \<Rightarrow> if is_digit a \<and> a \<noteq> CHR ''0'' then Some (digit_val a) else None
      | [a, b] \<Rightarrow>
          if a = CHR ''3'' \<and> is_digit b \<and> digit_val b \<le> 1 then Some (30 + digit_val b)
          else if (a = CHR ''1'' \<or> a = CHR ''2'') \<and> is_digit b then Some (10 * digit_val a + digit_val b)
          else if (a = CHR ''0'' \<or> a = CHR '' '') \<and> is_digit b \<and> b \<noteq> CHR ''0'' then Some (digit_val b)
          else None
      | _ \<Rightarrow> None)"

definition hour_H :: "string \<Rightarrow> nat option" where
  \<comment> \<open>\<open>%H\<close>: \<open>2[0-3]|[0-1]\d|\d\<close>\<close>
  "hour_H s =
     (case s of
        [a] \<Rightarrow> if is_digit a then Some (digit_val a) else None
      | [a, b] \<Rightarrow>
          if a = CHR ''2'' \<and> is_digit b \<and> digit_val b \<le> 3 then Some (20 + digit_val b)
          else if (a = CHR ''0'' \<or> a = CHR ''1'') \<and> is_digit b then Some (10 * digit_val a + digit_val b)
          else None
      | _ \<Rightarrow> None)"

definition minute_M :: "string \<Rightarrow> nat option" where
  \<comment> \<open>\<open>%M\<close>: \<open>[0-5]\d|\d\<close>\<close>
  "minute_M s =
     (case s of
        [a] \<Rightarrow> if is_digit a then Some (digit_val a) else None
      | [a, b] \<Rightarrow>
          if is_digit a \<and> digit_val a \<le> 5 \<and> is_digit b then Some (10 * digit_val a + digit_val b)
          else None
      | _ \<Rightarrow> None)"

definition is_leap :: "nat \<Rightarrow> bool" where
  "is_leap y = (y mod 4 = 0 \<and> (y mod 100 \<noteq> 0 \<or> y mod 400 = 0))"

definition days_in_month :: "nat \<Rightarrow> nat \<Rightarrow> nat" where
  "days_in_month y m =
     (if m = 2 then (if is_leap y then 29 else 28)
      else if m = 4 \<or> m = 6 \<or> m = 9 \<or> m = 11 then 30 else 31)"

definition strptime_date :: "string \<Rightarrow> (nat \<times> nat \<times> nat) option" where
  \<comment> \<open>\<open>datetime.strptime(s, '%Y-%m-%d')\<close>: year, month, day; \<open>None\<close> when it raises\<close>
  "strptime_date s =
     (case split_on CHR ''-'' s of
        [ys, ms, ds] \<Rightarrow>
          (case (year_Y ys, month_m ms, day_d ds) of
             (Some y, Some m, Some d) \<Rightarrow>
               if 1 \<le> y \<and> d \<le> days_in_month y m then Some (y, m, d) else None
           | _ \<Rightarrow> None)
      | _ \<Rightarrow> None)"

definition strptime_time :: "string \<Rightarrow> (nat \<times> nat) option" where
  \<comment> \<open>\<open>datetime.strptime(s, '%H:%M').time()\<close>: hour, minute; \<open>None\<close> when it raises\<close>
  "strptime_time s =
     (case split_on CHR '':'' s of
        [hs, ms] \<Rightarrow>
          (case (hour_H hs, minute_M ms) of
             (Some h, Some m) \<Rightarrow> Some (h, m)
           | _ \<Rightarrow> None)
      | _ \<Rightarrow> None)"

definition combine :: "nat \<times> nat \<times> nat \<Rightarrow> nat \<times> nat \<Rightarrow> pydatetime" where
  \<comment> \<open>\<open>datetime.combine(date, time)\<close>\<close>
  "combine d t =
     (case (d, t) of
        ((y, m, dd), (h, mi)) \<Rightarrow>
          \<lparr>dt_year = y, dt_month = m, dt_day = dd, dt_hour = h, dt_minute = mi,
           dt_second = 0, dt_microsecond = 0, dt_utcoffset = None\<rparr>)"

section \<open>ConcertScraper: events of a listing page\<close>

text \<open>
  A JSON-LD event as \<open>json.loads\<close> returns it, with the members the code reads and the
  shapes on which the code behaves differently: a member may be absent, may have the
  JSON type schema.org gives it, or may have another one, on which a \<open>.get\<close> or an
  \<open>in\<close> of the code raises.
\<close>

datatype json_text = Text string | Null

datatype performer_entry =
    PerformerDict "(string \<times> json_text) list"  \<comment> \<open>a JSON object, as its members (keys distinct)\<close>
  | PerformerStr string  \<comment> \<open>a plain string\<close>

datatype performer_field =
    PerformerMissing
  | PerformerList "performer_entry list"
  | PerformerSingle performer_entry

record geo =
  geo_latitude :: coord
  geo_longitude :: coord

datatype json_geo =
    GeoFalsy  \<comment> \<open>no \<open>geo\<close> member, or a falsy one (\<open>null\<close>, \<open>{}\<close>)\<close>
  | GeoObj geo
  | GeoOther  \<comment> \<open>a truthy value that is no object: \<open>geo.get\<close> raises\<close>

record location =
  location_name :: "json_text option"  \<comment> \<open>\<open>None\<close>: no \<open>name\<close> member\<close>
  location_geo :: json_geo

datatype json_location =
    LocationMissing
  | LocationObj location
  | LocationOther  \<comment> \<open>\<open>null\<close>, a string, a list, a number: \<open>location.get\<close> raises\<close>

datatype json_start =
    StartMissing
  | StartText string
  | StartScalar  \<comment> \<open>a truthy number or \<open>true\<close>: \<open>'T' in start_date\<close> raises\<close>
  | StartOther  \<comment> \<open>\<open>null\<close>, a falsy scalar, a list or an object: nothing raises, no time is read\<close>

record event =
  ev_name :: "string option"
  ev_startDate :: json_start
  ev_location :: json_location
  ev_performer :: performer_field

datatype json_event =
    EventObj event
  | EventOther  \<comment> \<open>a value that is no object: \<open>event.get\<close> raises\<close>

text \<open>
  The record of one performer of one event. \<open>None\<close> as venue or as performer name is
  Python's \<open>None\<close> (a JSON \<open>null\<close>); \<open>None\<close> as event date is a start date that is no
  string.
\<close>

record event_data =
  venue :: "string option"
  event_name :: string
  event_date :: "string option"
  event_start_time :: string
  latitude :: coord
  longitude :: coord
  distance_miles :: distance

record performer = event_data +
  performer_name :: "string option"

record concert_scraper =
  scraper_lat :: coord
  scraper_lon :: coord

definition get_default :: "'a option \<Rightarrow> 'a \<Rightarrow> 'a" where
  \<comment> \<open>\<open>d.get(key, default)\<close>\<close>
  "get_default v d = (case v of Some x \<Rightarrow> x | None \<Rightarrow> d)"

fun text_value :: "json_text \<Rightarrow> string option" where
  "text_value (Text s) = Some s"
| "text_value Null = None"

definition extract_event_data :: "datetime_lib \<Rightarrow> concert_scraper \<Rightarrow> event \<Rightarrow> event_data option" where
  \<comment> \<open>\<open>None\<close> when \<open>_extract_event_data\<close> raises\<close>
  "extract_event_data lib self ev =
     (case ev_startDate ev of
        StartScalar \<Rightarrow> None
      | start \<Rightarrow>
          (let start_date = (case start of StartMissing \<Rightarrow> Some [] | StartText s \<Rightarrow> Some s | _ \<Rightarrow> None);
               start_time =
                 (case start of
                    StartText s \<Rightarrow>
                      (if s \<noteq> [] \<and> CHR ''T'' \<in> set s
                       then (case fromisoformat lib (replace_Z s) of
                               Some dt \<Rightarrow> strftime_HM dt
                             | None \<Rightarrow> [])
                       else [])
                  | _ \<Rightarrow> [])
           in case ev_location ev of
                LocationOther \<Rightarrow> None
              | loc \<Rightarrow>
                  (let l = (case loc of LocationObj l \<Rightarrow> l
                                      | _ \<Rightarrow> \<lparr>location_name = None, location_geo = GeoFalsy\<rparr>);
                       venue_name = (case location_name l of None \<Rightarrow> Some [] | Some v \<Rightarrow> text_value v)
                   in case location_geo l of
                        GeoOther \<Rightarrow> None
                      | g \<Rightarrow>
                          (let lat = (case g of GeoObj g' \<Rightarrow> geo_latitude g' | _ \<Rightarrow> Absent);
                               lon = (case g of GeoObj g' \<Rightarrow> geo_longitude g' | _ \<Rightarrow> Absent);
                               dist = calculate_distance (scraper_lat self) (scraper_lon self) lat lon
                           in Some \<lparr>venue = venue_name, event_name = get_default (ev_name ev) [],
                                    event_date = start_date, event_start_time = start_time,
                                    latitude = lat, longitude = lon, distance_miles = dist\<rparr>))))"

fun entry_truthy :: "performer_entry \<Rightarrow> bool" where
  "entry_truthy (PerformerDict kvs) = (kvs \<noteq> [])"
| "entry_truthy (PerformerStr s) = (s \<noteq> [])"

definition performer_list_of :: "event \<Rightarrow> performer_entry list" where
  \<comment> \<open>\<open>event.get('performer', [])\<close>, a value that is no list wrapped in one\<close>
  "performer_list_of ev =
     (case ev_performer ev of
        PerformerMissing \<Rightarrow> []
      | PerformerList ps \<Rightarrow> ps
      | PerformerSingle p \<Rightarrow> (if entry_truthy p then [p] else []))"

fun name_of :: "performer_entry \<Rightarrow> string option" where
  \<comment> \<open>\<open>performer.get('name', '') if isinstance(performer, dict) else str(performer)\<close>\<close>
  "name_of (PerformerDict kvs) = (case map_of kvs ''name'' of None \<Rightarrow> Some [] | Some v \<Rightarrow> text_value v)"
| "name_of (PerformerStr s) = Some s"

definition performer_row :: "event_data \<Rightarrow> string option \<Rightarrow> performer" where
  \<comment> \<open>\<open>{**event_data, 'performer_name': name}\<close>\<close>
  "performer_row ed name =
     \<lparr>venue = venue ed, event_name = event_name ed, event_date = event_date ed,
      event_start_time = event_start_time ed, latitude = latitude ed, longitude = longitude ed,
      distance_miles = distance_miles ed, performer_name = name\<rparr>"

type_synonym scrape_acc = "performer list \<times> nat \<times> nat"
  \<comment> \<open>\<open>performers\<close>, \<open>event_count\<close>, \<open>festival_count\<close>\<close>

text \<open>
  One round of \<open>for event in events\<close> either completes or raises; both leave the three
  variables as the round made them, since they are assigned before the statement that
  raises.
\<close>

datatype outcome = is_Done: Done (state_of: scrape_acc) | Raised (state_of: scrape_acc)

definition scrape_event :: "datetime_lib \<Rightarrow> concert_scraper \<Rightarrow> json_event \<Rightarrow> scrape_acc \<Rightarrow> outcome" where
  "scrape_event lib self jev acc =
     (case acc of
        (performers, event_count, festival_count) \<Rightarrow>
          (case jev of
             EventOther \<Rightarrow> Raised (performers, event_count + 1, festival_count)
           | EventObj ev \<Rightarrow>
               (let performer_list = performer_list_of ev
                in if length performer_list > FESTIVAL_PERFORMER_LIMIT
                   then Done (performers, event_count + 1, festival_count + 1)
                   else (case extract_event_data lib self ev of
                           None \<Rightarrow> Raised (performers, event_count + 1, festival_count)
                         | Some ed \<Rightarrow>
                             Done (performers @ map (\<lambda>p. performer_row ed (name_of p)) performer_list,
                                   event_count + 1, festival_count)))))"

fun scrape_events :: "datetime_lib \<Rightarrow> concert_scraper \<Rightarrow> json_event list \<Rightarrow> scrape_acc \<Rightarrow> scrape_acc" where
  \<comment> \<open>the loop over the events of one block, inside the block's \<open>try\<close>: an exception ends it\<close>
  "scrape_events lib self [] acc = acc"
| "scrape_events lib self (jev # events) acc =
     (case scrape_event lib self jev acc of
        Done acc' \<Rightarrow> scrape_events lib self events acc'
      | Raised acc' \<Rightarrow> acc')"

datatype ld_json = Single json_event | Many "json_event list"

definition events_of :: "ld_json \<Rightarrow> json_event list" where
  \<comment> \<open>\<open>data if isinstance(data, list) else [data]\<close>\<close>
  "events_of data = (case data of Single ev \<Rightarrow> [ev] | Many evs \<Rightarrow> evs)"

text \<open>
  A structured-data block of a page is what \<open>json.loads\<close> makes of it: \<open>None\<close> when it
  raises. The \<open>except Exception: continue\<close> around the block catches that, and whatever the
  loop over the block's events raises.
\<close>

fun scrape_blocks :: "datetime_lib \<Rightarrow> concert_scraper \<Rightarrow> ld_json option list \<Rightarrow> scrape_acc \<Rightarrow> scrape_acc" where
  "scrape_blocks lib self [] acc = acc"
| "scrape_blocks lib self (None # blocks) acc = scrape_blocks lib self blocks acc"
| "scrape_blocks lib self (Some data # blocks) acc =
     scrape_blocks lib self blocks (scrape_events lib self (events_of data) acc)"

record page =
  blocks :: "ld_json option list"  \<comment> \<open>the \<open>application/ld+json\<close> scripts, in page order\<close>
  next_page :: "string option"  \<comment> \<open>the \<open>href\<close> of the \<open>next_page\<close> link\<close>

definition scrape_page ::
  "datetime_lib \<Rightarrow> concert_scraper \<Rightarrow> page option \<Rightarrow> performer list \<times> nat \<times> nat \<times> page option" where
  \<comment> \<open>the argument is the fetched page, \<open>None\<close> when the request raises\<close>
  "scrape_page lib self fetched =
     (case fetched of
        None \<Rightarrow> ([], 0, 0, None)
      | Some pg \<Rightarrow>
          (case scrape_blocks lib self (blocks pg) ([], 0, 0) of
             (performers, event_count, festival_count) \<Rightarrow>
               (performers, event_count, festival_count, Some pg)))"

definition get_next_page_url :: "page option \<Rightarrow> string option" where
  "get_next_page_url soup =
     (case soup of
        None \<Rightarrow> None
      | Some pg \<Rightarrow> map_option (\<lambda>href. ''https://www.songkick.com'' @ href) (next_page pg))"

section \<open>ConcertScraper: the show-time filter\<close>

definition event_datetime :: "datetime_lib \<Rightarrow> performer \<Rightarrow> int option" where
  \<comment> \<open>the \<open>try\<close> body of \<open>_has_show_started\<close>: the instant of \<open>event_datetime\<close>, \<open>None\<close> when
      the body raises\<close>
  "event_datetime lib row =
     (case event_date row of
        None \<Rightarrow> None
      | Some event_date_str \<Rightarrow>
          (let event_time_str = event_start_time row;
               date_part = takeWhile (\<lambda>c. c \<noteq> CHR ''T'') event_date_str;
               separate =
                 (case strptime_date date_part of
                    None \<Rightarrow> None
                  | Some d \<Rightarrow>
                      (case strptime_time event_time_str of
                         None \<Rightarrow> None
                       | Some t \<Rightarrow> Some (localize lib (combine d t))))
           in if CHR ''T'' \<in> set event_date_str
              then (case fromisoformat lib (replace_Z event_date_str) of
                      Some dt \<Rightarrow>
                        Some (if dt_utcoffset dt = None then localize lib dt else instant_of lib dt)
                    | None \<Rightarrow> separate)
              else separate))"

definition has_show_started :: "datetime_lib \<Rightarrow> performer \<Rightarrow> int \<Rightarrow> bool" where
  "has_show_started lib row current_time =
     (if event_start_time row = [] then False
      else (case event_datetime lib row of
              Some t \<Rightarrow> current_time > t
            | None \<Rightarrow> False))"

section \<open>ConcertScraper: deduplication\<close>

definition distance_sort :: "distance \<Rightarrow> bool \<times> real" where
  \<comment> \<open>the order of the column \<open>distance_sort\<close>: finite values by size, infinity after them\<close>
  "distance_sort d = (case d of Miles x \<Rightarrow> (False, x) | Unknown \<Rightarrow> (True, 0))"

definition sorts_by_distance :: "(performer list \<Rightarrow> performer list) \<Rightarrow> bool" where
  \<comment> \<open>\<open>df.sort_values('distance_sort', na_position='last')\<close> sorts with an algorithm that is
      not stable: all that is known of it is that it permutes the rows and orders them.\<close>
  "sorts_by_distance sort_values =
     (\<forall>df. mset (sort_values df) = mset df
          \<and> sorted (map (\<lambda>r. distance_sort (distance_miles r)) (sort_values df)))"

definition stable_sort_values :: "performer list \<Rightarrow> performer list" where
  "stable_sort_values df = sort_key (\<lambda>r. distance_sort (distance_miles r)) df"

record unique_performer =
  up_performer_name :: string
  up_venue :: "string option"
  up_distance_miles :: distance

fun first_valid :: "'a option list \<Rightarrow> 'a option" where
  \<comment> \<open>the aggregation \<open>'first'\<close> on one column of a group: its first value that is not null,
      null when there is none\<close>
  "first_valid [] = None"
| "first_valid (None # vs) = first_valid vs"
| "first_valid (Some v # vs) = Some v"

definition groupby_first :: "performer list \<Rightarrow> unique_performer list" where
  \<comment> \<open>\<open>df.groupby('performer_name').agg({'venue': 'first', 'distance_miles': 'first'})
      .reset_index()\<close>: rows whose name is null belong to no group; one row per name, the
      names in ascending order; each column aggregated on its own. A distance is a float
      and never null.\<close>
  "groupby_first df =
     List.map_filter
       (\<lambda>n. case filter (\<lambda>r. performer_name r = Some n) df of
               [] \<Rightarrow> None
             | g # gs \<Rightarrow>
                 Some \<lparr>up_performer_name = n,
                       up_venue = first_valid (map venue (g # gs)),
                       up_distance_miles = distance_miles g\<rparr>)
       (sort (remdups (List.map_filter performer_name df)))"

definition venue_filter :: "performer list \<Rightarrow> performer list" where
  \<comment> \<open>\<open>df[df['venue'] != '']\<close>\<close>
  "venue_filter df = filter (\<lambda>r. venue r \<noteq> Some []) df"

definition show_time_filter :: "datetime_lib \<Rightarrow> int \<Rightarrow> performer list \<Rightarrow> performer list" where
  \<comment> \<open>\<open>df[~df.apply(lambda row: self._has_show_started(row, current_time), axis=1)]\<close>\<close>
  "show_time_filter lib current_time df = filter (\<lambda>r. \<not> has_show_started lib r current_time) df"

definition sorted_frame ::
  "datetime_lib \<Rightarrow> (performer list \<Rightarrow> performer list) \<Rightarrow> int \<Rightarrow> performer list \<Rightarrow> performer list" where
  \<comment> \<open>\<open>df\<close> as \<open>groupby\<close> reads it and \<open>to_csv\<close> writes it\<close>
  "sorted_frame lib sort_values current_time performers =
     sort_values (show_time_filter lib current_time (venue_filter performers))"

definition process_performers ::
  "datetime_lib \<Rightarrow> (performer list \<Rightarrow> performer list) \<Rightarrow> int \<Rightarrow> performer list \<Rightarrow> unique_performer list" where
  \<comment> \<open>the value returned when the snapshot is written; the function returns \<open>[]\<close> when
      writing it raises\<close>
  "process_performers lib sort_values current_time performers =
     (if performers = [] then []
      else groupby_first (sorted_frame lib sort_values current_time performers))"

section \<open>SpotifyClient: artist resolution\<close>

datatype error_reason =
    No_access_token
  | API_Error string  \<comment> \<open>with the response's text\<close>
  | No_artist_found
  | No_suitable_artist_found
  | No_tracks_found
  | Search_error string  \<comment> \<open>with the exception's text\<close>

text \<open>
  The dictionary \<open>search_artist\<close> returns, with the two members \<open>main\<close> adds to it; a key
  the dictionary does not hold is \<open>None\<close>.
\<close>

record match_result =
  searched_artist :: string
  found_artist :: "string option"
  uri :: "string option"
  exact_match :: "bool option"
  similarity :: "real option"  \<comment> \<open>the key \<open>similarity_score\<close>\<close>
  had_region_identifier :: "bool option"
  error :: "error_reason option"
  result_venue :: "string option option"  \<comment> \<open>the key \<open>venue\<close>; its value may be null\<close>
  result_distance_miles :: "distance option"  \<comment> \<open>the key \<open>distance_miles\<close>\<close>

definition error_result :: "string \<Rightarrow> error_reason \<Rightarrow> match_result" where
  \<comment> \<open>\<open>{'searched_artist': artist_name, 'error': ...}\<close>\<close>
  "error_result name e =
     \<lparr>searched_artist = name, found_artist = None, uri = None, exact_match = None,
      similarity = None, had_region_identifier = None, error = Some e,
      result_venue = None, result_distance_miles = None\<rparr>"

text \<open>
  The catalog as the code sees it: the answer to the search request (an exception of the
  request, a body without the key \<open>artists\<close>, or the candidates), and the track
  \<open>_get_artist_track\<close> finds for an artist id (it catches every exception of its own
  requests and returns \<open>None\<close> then).
\<close>

datatype search_response =
    Request_failed string
  | No_artists_key string
  | Artists "artist list"

record track =
  track_uri :: string

record catalog =
  ratio_of :: "string \<Rightarrow> string \<Rightarrow> real"
  search :: "string \<Rightarrow> search_response"
  get_artist_track :: "string \<Rightarrow> track option"

definition search_artist :: "catalog \<Rightarrow> string option \<Rightarrow> string \<Rightarrow> match_result" where
  "search_artist cat access_token name =
     (if access_token = None \<or> access_token = Some [] then error_result name No_access_token
      else
        (let search_name = clean_artist_name name;
             has_region = has_region_identifier name
         in case search cat search_name of
              Request_failed e \<Rightarrow> error_result name (Search_error e)
            | No_artists_key response_data \<Rightarrow> error_result name (API_Error response_data)
            | Artists artists \<Rightarrow>
                if artists = [] then error_result name No_artist_found
                else
                  (case find_best_match (ratio_of cat) artists name search_name has_region of
                     (None, exact, sim) \<Rightarrow> error_result name No_suitable_artist_found
                   | (Some chosen_artist, exact, sim) \<Rightarrow>
                       (case get_artist_track cat (artist_id chosen_artist) of
                          None \<Rightarrow>
                            (error_result name No_tracks_found)
                              \<lparr>found_artist := Some (artist_name chosen_artist)\<rparr>
                        | Some t \<Rightarrow>
                            \<lparr>searched_artist = name,
                             found_artist = Some (artist_name chosen_artist),
                             uri = Some (track_uri t), exact_match = Some exact,
                             similarity = Some sim, had_region_identifier = Some has_region,
                             error = None, result_venue = None, result_distance_miles = None\<rparr>))))"

section \<open>main: one lookup per performer\<close>

definition lookup :: "catalog \<Rightarrow> string option \<Rightarrow> unique_performer list \<Rightarrow> string \<Rightarrow> match_result" where
  \<comment> \<open>one round of the loop over \<open>performer_names\<close>\<close>
  "lookup cat access_token performers_data a =
     (let result = search_artist cat access_token a;
          perf_data = find (\<lambda>p. up_performer_name p = a) performers_data
      in result
           \<lparr>result_venue := Some (case perf_data of Some p \<Rightarrow> up_venue p | None \<Rightarrow> Some ''Unknown''),
            result_distance_miles :=
              Some (case perf_data of Some p \<Rightarrow> up_distance_miles p | None \<Rightarrow> Unknown)\<rparr>)"

definition main_results :: "catalog \<Rightarrow> string option \<Rightarrow> unique_performer list \<Rightarrow> match_result list" where
  "main_results cat access_token performers_data =
     (let performer_names = map up_performer_name performers_data
      in map (lookup cat access_token performers_data) performer_names)"

definition count_errors :: "match_result list \<Rightarrow> nat" where
  \<comment> \<open>\<open>errors = sum(1 for r in results if 'error' in r)\<close>\<close>
  "count_errors results = length (filter (\<lambda>r. error r \<noteq> None) results)"

section \<open>SpotifyClient.create_playlist: the tracks of the playlist\<close>

record stats =
  exact :: nat
  fuzzy :: nat
  skipped :: nat

definition get_distance :: "match_result \<Rightarrow> bool \<times> real" where
  \<comment> \<open>the sort key: the distance as a float, infinity when the key is missing\<close>
  "get_distance r = distance_sort (get_default (result_distance_miles r) Unknown)"

definition results_sorted :: "match_result list \<Rightarrow> match_result list" where
  \<comment> \<open>\<open>sorted(results, key=get_distance)\<close>; Python's sort is stable\<close>
  "results_sorted results = sort_key get_distance results"

fun approve :: "match_result list \<Rightarrow> string list \<times> stats \<Rightarrow> (string list \<times> stats) option" where
  \<comment> \<open>the loop that fills \<open>approved_uris\<close> and \<open>stats\<close>; \<open>None\<close> when a result without
      \<open>error\<close> lacks a key the loop reads (a \<open>KeyError\<close>, which ends \<open>create_playlist\<close>)\<close>
  "approve [] acc = Some acc"
| "approve (result # rest) (approved_uris, st) =
     (if error result \<noteq> None then approve rest (approved_uris, st)
      else case similarity result of
        None \<Rightarrow> None
      | Some sim \<Rightarrow>
          if sim \<ge> SKIP_THRESHOLD then
            (case (uri result, exact_match result) of
               (Some u, Some e) \<Rightarrow>
                 approve rest
                   (approved_uris @ [u],
                    if e then st\<lparr>exact := exact st + 1\<rparr> else st\<lparr>fuzzy := fuzzy st + 1\<rparr>)
             | _ \<Rightarrow> None)
          else approve rest (approved_uris, st\<lparr>skipped := skipped st + 1\<rparr>))"

definition playlist_tracks :: "match_result list \<Rightarrow> (string list \<times> stats) option" where
  "playlist_tracks results =
     approve (results_sorted results) ([], \<lparr>exact = 0, fuzzy = 0, skipped = 0\<rparr>)"

section \<open>Verified properties\<close>

subsection \<open>The two-tier match\<close>

lemma py_max_mem: "py_max key b xs \<in> set (b # xs)"
  by (induction xs arbitrary: b) auto

lemma py_max_acc_le: "key b \<le> key (py_max key b xs)"
proof (induction xs arbitrary: b)
  case Nil
  show ?case by simp
next
  case (Cons x xs)
  have "key b \<le> key (if key b < key x then x else b)" by (simp add: less_imp_le)
  also have "\<dots> \<le> key (py_max key (if key b < key x then x else b) xs)" by (rule Cons.IH)
  finally show ?case by simp
qed

lemma py_max_ge: "y \<in> set (b # xs) \<Longrightarrow> key y \<le> key (py_max key b xs)"
proof (induction xs arbitrary: b)
  case Nil
  then show ?case by simp
next
  case (Cons x xs)
  let ?b = "if key b < key x then x else b"
  from Cons.prems consider "y = b" | "y = x" | "y \<in> set xs" by auto
  then show ?case
  proof cases
    case 1
    have "key b \<le> key ?b" by (simp add: less_imp_le)
    also have "\<dots> \<le> key (py_max key ?b xs)" by (rule py_max_acc_le)
    finally show ?thesis using 1 by simp
  next
    case 2
    have "key x \<le> key ?b" by (simp add: not_less)
    also have "\<dots> \<le> key (py_max key ?b xs)" by (rule py_max_acc_le)
    finally show ?thesis using 2 by simp
  next
    case 3
    then have "y \<in> set (?b # xs)" by simp
    then have "key y \<le> key (py_max key ?b xs)" by (rule Cons.IH)
    then show ?thesis by simp
  qed
qed

lemma find_matches_exact_tagged:
  "set (fst (find_matches ratio artists original_name search_name True)) =
     {a \<in> set artists. lower (clean_artist_name (artist_name a)) = lower search_name}"
proof (induction artists)
  case Nil
  show ?case by simp
next
  case (Cons a artists)
  obtain ex ap where r: "find_matches ratio artists original_name search_name True = (ex, ap)"
    by (cases "find_matches ratio artists original_name search_name True")
  from Cons.IH have ih: "set ex = {a \<in> set artists. lower (clean_artist_name (artist_name a)) = lower search_name}"
    by (simp add: r)
  show ?case
    by (simp add: r ih Let_def) blast
qed

lemma find_matches_exact_untagged:
  "set (fst (find_matches ratio artists original_name search_name False)) =
     {a \<in> set artists. lower (artist_name a) = lower original_name}"
proof (induction artists)
  case Nil
  show ?case by simp
next
  case (Cons a artists)
  obtain ex ap where r: "find_matches ratio artists original_name search_name False = (ex, ap)"
    by (cases "find_matches ratio artists original_name search_name False")
  from Cons.IH have ih: "set ex = {a \<in> set artists. lower (artist_name a) = lower original_name}"
    by (simp add: r)
  show ?case
    by (simp add: r ih Let_def) blast
qed

lemma find_matches_exact:
  "set (fst (find_matches ratio artists original_name search_name has_region)) =
     {a \<in> set artists.
        if has_region then lower (clean_artist_name (artist_name a)) = lower search_name
        else lower (artist_name a) = lower original_name}"
proof (cases has_region)
  case True
  then show ?thesis by (simp add: find_matches_exact_tagged)
next
  case False
  then show ?thesis by (simp add: find_matches_exact_untagged)
qed

lemma find_matches_approx_tagged:
  "set (snd (find_matches ratio artists original_name search_name True)) =
     {(a, s). a \<in> set artists
        \<and> lower (clean_artist_name (artist_name a)) \<noteq> lower search_name
        \<and> s = similarity_score ratio search_name (clean_artist_name (artist_name a))
        \<and> s > 0.8}"
proof (induction artists)
  case Nil
  show ?case by simp
next
  case (Cons a artists)
  obtain ex ap where r: "find_matches ratio artists original_name search_name True = (ex, ap)"
    by (cases "find_matches ratio artists original_name search_name True")
  from Cons.IH have ih: "set ap = {(a, s). a \<in> set artists
        \<and> lower (clean_artist_name (artist_name a)) \<noteq> lower search_name
        \<and> s = similarity_score ratio search_name (clean_artist_name (artist_name a))
        \<and> s > 0.8}"
    by (simp add: r)
  show ?case
    by (simp add: r ih Let_def) blast
qed

lemma find_matches_approx_untagged:
  "set (snd (find_matches ratio artists original_name search_name False)) =
     {(a, s). a \<in> set artists
        \<and> lower (artist_name a) \<noteq> lower original_name
        \<and> s = similarity_score ratio original_name (artist_name a)
        \<and> s > 0.6}"
proof (induction artists)
  case Nil
  show ?case by simp
next
  case (Cons a artists)
  obtain ex ap where r: "find_matches ratio artists original_name search_name False = (ex, ap)"
    by (cases "find_matches ratio artists original_name search_name False")
  from Cons.IH have ih: "set ap = {(a, s). a \<in> set artists
        \<and> lower (artist_name a) \<noteq> lower original_name
        \<and> s = similarity_score ratio original_name (artist_name a)
        \<and> s > 0.6}"
    by (simp add: r)
  show ?case
    by (simp add: r ih Let_def) blast
qed

text \<open>
  C1. For every performer name and candidate list: the exact set holds the candidates whose
  name equals the searched name case-insensitively (on cleaned names when the performer name
  carries a region tag, on raw names otherwise); the approximate set holds the other
  candidates whose similarity is strictly above 0.8 (tagged, on cleaned names) or strictly
  above 0.6 (untagged, on raw names), so a score equal to the threshold is excluded. When the
  exact set is not empty the selected artist is one of its members with the highest follower
  count and the reported score is 1.0, whatever the approximate set holds; otherwise the
  approximate candidate with the highest similarity is selected; with both sets empty the
  performer is unresolved.
\<close>

theorem find_best_match_two_tier:
  "set (exact_matches ratio artists name) =
     {a \<in> set artists.
        if has_region_identifier name
        then lower (clean_artist_name (artist_name a)) = lower (clean_artist_name name)
        else lower (artist_name a) = lower name}
   \<and> (has_region_identifier name \<longrightarrow>
        set (approximate_matches ratio artists name) =
          {(a, s). a \<in> set artists
             \<and> lower (clean_artist_name (artist_name a)) \<noteq> lower (clean_artist_name name)
             \<and> s = similarity_score ratio (clean_artist_name name) (clean_artist_name (artist_name a))
             \<and> s > 0.8})
   \<and> (\<not> has_region_identifier name \<longrightarrow>
        set (approximate_matches ratio artists name) =
          {(a, s). a \<in> set artists
             \<and> lower (artist_name a) \<noteq> lower name
             \<and> s = similarity_score ratio name (artist_name a)
             \<and> s > 0.6})
   \<and> (exact_matches ratio artists name \<noteq> [] \<longrightarrow>
        (\<exists>best \<in> set (exact_matches ratio artists name).
           best_match_for ratio artists name = (Some best, True, 1)
           \<and> (\<forall>a \<in> set (exact_matches ratio artists name). followers_total a \<le> followers_total best)))
   \<and> (exact_matches ratio artists name = [] \<and> approximate_matches ratio artists name \<noteq> [] \<longrightarrow>
        (\<exists>(best, s) \<in> set (approximate_matches ratio artists name).
           best_match_for ratio artists name = (Some best, False, s)
           \<and> (\<forall>(a, s') \<in> set (approximate_matches ratio artists name). s' \<le> s)))
   \<and> (exact_matches ratio artists name = [] \<and> approximate_matches ratio artists name = [] \<longrightarrow>
        best_match_for ratio artists name = (None, False, 0))"
proof -
  let ?fm = "find_matches ratio artists name (clean_artist_name name) (has_region_identifier name)"
  obtain ex ap where fm: "?fm = (ex, ap)" by (cases ?fm)
  have ex: "exact_matches ratio artists name = ex" and ap: "approximate_matches ratio artists name = ap"
    by (simp_all add: exact_matches_def approximate_matches_def fm)
  have c1: "set (exact_matches ratio artists name) =
     {a \<in> set artists.
        if has_region_identifier name
        then lower (clean_artist_name (artist_name a)) = lower (clean_artist_name name)
        else lower (artist_name a) = lower name}"
    unfolding exact_matches_def by (rule find_matches_exact)
  have c2: "has_region_identifier name \<longrightarrow>
        set (approximate_matches ratio artists name) =
          {(a, s). a \<in> set artists
             \<and> lower (clean_artist_name (artist_name a)) \<noteq> lower (clean_artist_name name)
             \<and> s = similarity_score ratio (clean_artist_name name) (clean_artist_name (artist_name a))
             \<and> s > 0.8}"
    unfolding approximate_matches_def by (simp add: find_matches_approx_tagged)
  have c3: "\<not> has_region_identifier name \<longrightarrow>
        set (approximate_matches ratio artists name) =
          {(a, s). a \<in> set artists
             \<and> lower (artist_name a) \<noteq> lower name
             \<and> s = similarity_score ratio name (artist_name a)
             \<and> s > 0.6}"
    unfolding approximate_matches_def by (simp add: find_matches_approx_untagged)
  have c4: "exact_matches ratio artists name \<noteq> [] \<longrightarrow>
        (\<exists>best \<in> set (exact_matches ratio artists name).
           best_match_for ratio artists name = (Some best, True, 1)
           \<and> (\<forall>a \<in> set (exact_matches ratio artists name). followers_total a \<le> followers_total best))"
  proof
    assume "exact_matches ratio artists name \<noteq> []"
    then obtain e es where e: "ex = e # es" using ex by (cases ex) auto
    let ?b = "py_max followers_total e es"
    have "best_match_for ratio artists name = (Some ?b, True, 1)"
      by (simp add: best_match_for_def find_best_match_def fm e)
    moreover have "?b \<in> set ex" unfolding e by (rule py_max_mem)
    moreover have "\<forall>a \<in> set ex. followers_total a \<le> followers_total ?b"
      unfolding e by (blast intro: py_max_ge)
    ultimately show "\<exists>best \<in> set (exact_matches ratio artists name).
           best_match_for ratio artists name = (Some best, True, 1)
           \<and> (\<forall>a \<in> set (exact_matches ratio artists name). followers_total a \<le> followers_total best)"
      unfolding ex by blast
  qed
  have c5: "exact_matches ratio artists name = [] \<and> approximate_matches ratio artists name \<noteq> [] \<longrightarrow>
        (\<exists>(best, s) \<in> set (approximate_matches ratio artists name).
           best_match_for ratio artists name = (Some best, False, s)
           \<and> (\<forall>(a, s') \<in> set (approximate_matches ratio artists name). s' \<le> s))"
  proof
    assume "exact_matches ratio artists name = [] \<and> approximate_matches ratio artists name \<noteq> []"
    then have ex0: "ex = []" and "ap \<noteq> []" using ex ap by auto
    then obtain p ps where p: "ap = p # ps" by (cases ap) auto
    let ?b = "py_max snd p ps"
    have "best_match_for ratio artists name = (Some (fst ?b), False, snd ?b)"
      by (simp add: best_match_for_def find_best_match_def fm ex0 p Let_def)
    moreover have "?b \<in> set ap" unfolding p by (rule py_max_mem)
    moreover have "\<forall>q \<in> set ap. snd q \<le> snd ?b"
      unfolding p by (blast intro: py_max_ge)
    ultimately show "\<exists>(best, s) \<in> set (approximate_matches ratio artists name).
           best_match_for ratio artists name = (Some best, False, s)
           \<and> (\<forall>(a, s') \<in> set (approximate_matches ratio artists name). s' \<le> s)"
      unfolding ap by (intro bexI[of _ ?b]) (auto simp: case_prod_beta)
  qed
  have c6: "exact_matches ratio artists name = [] \<and> approximate_matches ratio artists name = [] \<longrightarrow>
        best_match_for ratio artists name = (None, False, 0)"
    using ex ap by (auto simp: best_match_for_def find_best_match_def fm)
  from c1 c2 c3 c4 c5 c6 show ?thesis by (intro conjI)
qed

theorem find_best_match_two_tier_witness:
  "(has_region_identifier ''Artist (UK)''
    \<and> exact_matches (\<lambda>a b. if b = ''artist band'' then 4 / 5 else if b = ''artists'' then 41 / 50 else 0)
         [\<lparr>artist_id = ''1'', artist_name = ''Artist Band'', followers_total = 900\<rparr>,
          \<lparr>artist_id = ''2'', artist_name = ''artist'', followers_total = 10\<rparr>,
          \<lparr>artist_id = ''3'', artist_name = ''ARTIST (US)'', followers_total = 50\<rparr>,
          \<lparr>artist_id = ''4'', artist_name = ''Artists'', followers_total = 5\<rparr>]
         ''Artist (UK)'' \<noteq> [])
   \<and> best_match_for (\<lambda>a b. if b = ''artist band'' then 4 / 5 else if b = ''artists'' then 41 / 50 else 0)
         [\<lparr>artist_id = ''1'', artist_name = ''Artist Band'', followers_total = 900\<rparr>,
          \<lparr>artist_id = ''2'', artist_name = ''artist'', followers_total = 10\<rparr>,
          \<lparr>artist_id = ''3'', artist_name = ''ARTIST (US)'', followers_total = 50\<rparr>,
          \<lparr>artist_id = ''4'', artist_name = ''Artists'', followers_total = 5\<rparr>]
         ''Artist (UK)''
       = (Some \<lparr>artist_id = ''3'', artist_name = ''ARTIST (US)'', followers_total = 50\<rparr>, True, 1)
   \<and> set (approximate_matches (\<lambda>a b. if b = ''artist band'' then 4 / 5 else if b = ''artists'' then 41 / 50 else 0)
         [\<lparr>artist_id = ''1'', artist_name = ''Artist Band'', followers_total = 900\<rparr>,
          \<lparr>artist_id = ''2'', artist_name = ''artist'', followers_total = 10\<rparr>,
          \<lparr>artist_id = ''3'', artist_name = ''ARTIST (US)'', followers_total = 50\<rparr>,
          \<lparr>artist_id = ''4'', artist_name = ''Artists'', followers_total = 5\<rparr>]
         ''Artist (UK)'')
       = {(\<lparr>artist_id = ''4'', artist_name = ''Artists'', followers_total = 5\<rparr>, 41 / 50)}"
  (is "(?H1 \<and> ?H2) \<and> ?C1 \<and> ?C2")
proof -
  let ?R = "\<lambda>a b :: string. if b = ''artist band'' then 4 / 5 else if b = ''artists'' then 41 / 50 else (0 :: real)"
  let ?as = "[\<lparr>artist_id = ''1'', artist_name = ''Artist Band'', followers_total = 900\<rparr>,
          \<lparr>artist_id = ''2'', artist_name = ''artist'', followers_total = 10\<rparr>,
          \<lparr>artist_id = ''3'', artist_name = ''ARTIST (US)'', followers_total = 50\<rparr>,
          \<lparr>artist_id = ''4'', artist_name = ''Artists'', followers_total = 5\<rparr>]"
  note T = find_best_match_two_tier [of ?R ?as "''Artist (UK)''"]
  have h1: ?H1 by code_simp
  have e: "exact_matches ?R ?as ''Artist (UK)'' =
     [\<lparr>artist_id = ''2'', artist_name = ''artist'', followers_total = 10\<rparr>,
      \<lparr>artist_id = ''3'', artist_name = ''ARTIST (US)'', followers_total = 50\<rparr>]"
    by code_simp
  then have h2: ?H2 by simp
  from T [THEN conjunct2, THEN conjunct2, THEN conjunct2, THEN conjunct1, THEN mp, OF h2]
  obtain best where
    b: "best \<in> set (exact_matches ?R ?as ''Artist (UK)'')"
       "best_match_for ?R ?as ''Artist (UK)'' = (Some best, True, 1)"
       "\<forall>a \<in> set (exact_matches ?R ?as ''Artist (UK)''). followers_total a \<le> followers_total best"
    by blast
  from b(1,3) have "best = \<lparr>artist_id = ''3'', artist_name = ''ARTIST (US)'', followers_total = 50\<rparr>"
    unfolding e by auto
  with b(2) have c1: ?C1 by simp
  have l1: "lower (clean_artist_name ''Artist Band'') = ''artist band''" by code_simp
  have l2: "lower (clean_artist_name ''artist'') = ''artist''" by code_simp
  have l3: "lower (clean_artist_name ''ARTIST (US)'') = ''artist''" by code_simp
  have l4: "lower (clean_artist_name ''Artists'') = ''artists''" by code_simp
  have l5: "lower (clean_artist_name ''Artist (UK)'') = ''artist''" by code_simp
  from T [THEN conjunct2, THEN conjunct1, THEN mp, OF h1]
  have "set (approximate_matches ?R ?as ''Artist (UK)'') =
          {(a, s). a \<in> set ?as
             \<and> lower (clean_artist_name (artist_name a)) \<noteq> lower (clean_artist_name ''Artist (UK)'')
             \<and> s = similarity_score ?R (clean_artist_name ''Artist (UK)'') (clean_artist_name (artist_name a))
             \<and> s > 0.8}" .
  also have "\<dots> = {(\<lparr>artist_id = ''4'', artist_name = ''Artists'', followers_total = 5\<rparr>, 41 / 50)}"
    by (auto simp: similarity_score_def l1 l2 l3 l4 l5)
  finally have c2: ?C2 .
  from h1 h2 c1 c2 show ?thesis by blast
qed

subsection \<open>The show-time filter\<close>

lemma event_datetime_no_date:
  "event_date row = Some d \<Longrightarrow> CHR ''T'' \<notin> set d \<Longrightarrow> strptime_date d = None
     \<Longrightarrow> event_datetime lib row = None"
proof -
  assume d: "event_date row = Some d" and noT: "CHR ''T'' \<notin> set d"
    and nodate: "strptime_date d = None"
  have tw: "takeWhile (\<lambda>c. c \<noteq> CHR ''T'') d = d"
    by (rule takeWhile_eq_all_conv [THEN iffD2]) (use noT in blast)
  show ?thesis
    unfolding event_datetime_def Let_def d option.case tw using noT nodate by simp
qed

lemma strptime_date_tomorrow: "strptime_date ''tomorrow'' = None"
  by (simp add: strptime_date_def)

lemma strptime_date_ex: "strptime_date ''2024-03-01'' = Some (2024, 3, 1)"
  by (simp add: strptime_date_def year_Y_def month_m_def day_d_def is_digit_def digit_val_def
      days_in_month_def is_leap_def)

lemma strptime_time_ex: "strptime_time ''20:00'' = Some (20, 0)"
  by (simp add: strptime_time_def hour_H_def minute_M_def is_digit_def digit_val_def)

text \<open>
  C2, as the code has it. The show-time filter drops a record exactly when its start time is
  not empty, its date and time parse (as an ISO date-time, or else as a date and a time of
  day) and the instant they denote is strictly before the current time. A record with no
  start time is never dropped, and a record whose date cannot be parsed is kept: the
  \<open>except\<close> branch answers \<open>False\<close>, so the filter fails open.
\<close>

theorem show_time_filter_keeps_unparsed:
  "has_show_started lib row current_time =
     (event_start_time row \<noteq> [] \<and> (\<exists>t. event_datetime lib row = Some t \<and> t < current_time))
   \<and> show_time_filter lib current_time df =
       filter (\<lambda>r. \<not> (event_start_time r \<noteq> []
                       \<and> (\<exists>t. event_datetime lib r = Some t \<and> t < current_time))) df
   \<and> (event_start_time row = [] \<longrightarrow> \<not> has_show_started lib row current_time)
   \<and> (event_datetime lib row = None \<longrightarrow> \<not> has_show_started lib row current_time)"
proof -
  have iff: "has_show_started lib r current_time =
     (event_start_time r \<noteq> [] \<and> (\<exists>t. event_datetime lib r = Some t \<and> t < current_time))" for r
    by (simp add: has_show_started_def split: option.splits)
  have flt: "show_time_filter lib current_time df =
       filter (\<lambda>r. \<not> (event_start_time r \<noteq> []
                       \<and> (\<exists>t. event_datetime lib r = Some t \<and> t < current_time))) df"
    unfolding show_time_filter_def by (simp only: iff)
  have nostart: "event_start_time row = [] \<longrightarrow> \<not> has_show_started lib row current_time"
    by (simp add: iff)
  have noparse: "event_datetime lib row = None \<longrightarrow> \<not> has_show_started lib row current_time"
    by (simp add: iff)
  from iff [of row] flt nostart noparse show ?thesis by (intro conjI)
qed

text \<open>
  The claim that a record whose date cannot be parsed is dropped fails: a record with start
  time \<open>20:00\<close> and date \<open>tomorrow\<close> has no parsed instant and passes the filter.
\<close>

theorem unparsed_date_counterexample:
  "event_start_time
     \<lparr>venue = Some ''Hall'', event_name = ''Gig'', event_date = Some ''tomorrow'',
      event_start_time = ''20:00'', latitude = Absent, longitude = Absent,
      distance_miles = Unknown, performer_name = Some ''A''\<rparr> \<noteq> []
   \<and> event_datetime
       \<lparr>fromisoformat = (\<lambda>s. None), localize = (\<lambda>dt. 0), instant_of = (\<lambda>dt. 0)\<rparr>
       \<lparr>venue = Some ''Hall'', event_name = ''Gig'', event_date = Some ''tomorrow'',
        event_start_time = ''20:00'', latitude = Absent, longitude = Absent,
        distance_miles = Unknown, performer_name = Some ''A''\<rparr> = None
   \<and> show_time_filter
       \<lparr>fromisoformat = (\<lambda>s. None), localize = (\<lambda>dt. 0), instant_of = (\<lambda>dt. 0)\<rparr> 1
       [\<lparr>venue = Some ''Hall'', event_name = ''Gig'', event_date = Some ''tomorrow'',
         event_start_time = ''20:00'', latitude = Absent, longitude = Absent,
         distance_miles = Unknown, performer_name = Some ''A''\<rparr>]
     = [\<lparr>venue = Some ''Hall'', event_name = ''Gig'', event_date = Some ''tomorrow'',
         event_start_time = ''20:00'', latitude = Absent, longitude = Absent,
         distance_miles = Unknown, performer_name = Some ''A''\<rparr>]"
  by (simp add: show_time_filter_def has_show_started_def event_datetime_no_date strptime_date_tomorrow)

theorem show_time_filter_keeps_unparsed_witness:
  "has_show_started
     \<lparr>fromisoformat = (\<lambda>s. None), localize = (\<lambda>dt. int (dt_hour dt) * 60 + int (dt_minute dt)),
      instant_of = (\<lambda>dt. 0)\<rparr>
     \<lparr>venue = Some ''Hall'', event_name = ''Gig'', event_date = Some ''2024-03-01T20:00:00'',
      event_start_time = ''20:00'', latitude = Absent, longitude = Absent,
      distance_miles = Unknown, performer_name = Some ''A''\<rparr> 1300
   \<and> \<not> has_show_started
     \<lparr>fromisoformat = (\<lambda>s. None), localize = (\<lambda>dt. int (dt_hour dt) * 60 + int (dt_minute dt)),
      instant_of = (\<lambda>dt. 0)\<rparr>
     \<lparr>venue = Some ''Hall'', event_name = ''Gig'', event_date = Some ''2024-03-01T20:00:00'',
      event_start_time = ''20:00'', latitude = Absent, longitude = Absent,
      distance_miles = Unknown, performer_name = Some ''A''\<rparr> 1200
   \<and> \<not> has_show_started
     \<lparr>fromisoformat = (\<lambda>s. None), localize = (\<lambda>dt. int (dt_hour dt) * 60 + int (dt_minute dt)),
      instant_of = (\<lambda>dt. 0)\<rparr>
     \<lparr>venue = Some ''Bar'', event_name = ''Late'', event_date = Some ''2024-03-01'',
      event_start_time = [], latitude = Absent, longitude = Absent,
      distance_miles = Unknown, performer_name = Some ''B''\<rparr> 1300
   \<and> \<not> has_show_started
     \<lparr>fromisoformat = (\<lambda>s. None), localize = (\<lambda>dt. int (dt_hour dt) * 60 + int (dt_minute dt)),
      instant_of = (\<lambda>dt. 0)\<rparr>
     \<lparr>venue = Some ''Pub'', event_name = ''Odd'', event_date = Some ''next week'',
      event_start_time = ''21:30'', latitude = Absent, longitude = Absent,
      distance_miles = Unknown, performer_name = Some ''C''\<rparr> 1300"
  (is "has_show_started ?lib ?r1 1300 \<and> \<not> has_show_started ?lib ?r1 1200
       \<and> \<not> has_show_started ?lib ?r2 1300 \<and> \<not> has_show_started ?lib ?r3 1300")
proof -
  have tw: "takeWhile (\<lambda>c. c \<noteq> CHR ''T'') ''2024-03-01T20:00:00'' = ''2024-03-01''"
    by simp
  have e1: "event_datetime ?lib ?r1 = Some 1200"
    by (simp add: event_datetime_def Let_def strptime_date_ex strptime_time_ex combine_def)
  have s1: "event_start_time ?r1 \<noteq> []" by simp
  have s2: "event_start_time ?r2 = []" by simp
  have "strptime_date ''next week'' = None" by (simp add: strptime_date_def)
  then have e3: "event_datetime ?lib ?r3 = None"
    by (simp add: event_datetime_no_date)
  note T1 = show_time_filter_keeps_unparsed [of ?lib ?r1 1300 "[]", THEN conjunct1]
  note T1' = show_time_filter_keeps_unparsed [of ?lib ?r1 1200 "[]", THEN conjunct1]
  note T2 = show_time_filter_keeps_unparsed [of ?lib ?r2 1300 "[]",
      THEN conjunct2, THEN conjunct2, THEN conjunct1, THEN mp, OF s2]
  note T3 = show_time_filter_keeps_unparsed [of ?lib ?r3 1300 "[]",
      THEN conjunct2, THEN conjunct2, THEN conjunct2, THEN mp, OF e3]
  have a: "has_show_started ?lib ?r1 1300" unfolding T1 e1 using s1 by simp
  have b: "\<not> has_show_started ?lib ?r1 1200" unfolding T1' e1 by simp
  from a b T2 T3 show ?thesis by (intro conjI)
qed

subsection \<open>Deduplication\<close>

lemma filter_first_least:
  "sorted (map k df) \<Longrightarrow> filter P df = g # gs \<Longrightarrow> r' \<in> set df \<Longrightarrow> P r' \<Longrightarrow> k g \<le> k r'"
proof -
  assume srt: "sorted (map k df)" and f: "filter P df = g # gs" and r': "r' \<in> set df" "P r'"
  from srt have "sorted (map k (filter P df))" by (rule sorted_filter)
  moreover from r' have "r' \<in> set (filter P df)" by simp
  ultimately show ?thesis unfolding f by auto
qed

lemma filter_Cons_mem: "filter P df = g # gs \<Longrightarrow> set (g # gs) \<subseteq> set df \<and> P g"
proof -
  assume f: "filter P df = g # gs"
  have sub: "set (filter P df) \<subseteq> set df" by auto
  have "g \<in> set (filter P df)" unfolding f by simp
  then have "P g" by simp
  with sub show ?thesis unfolding f by simp
qed

lemma map_filter_all_Some:
  "(\<And>n. n \<in> set ns \<Longrightarrow> \<exists>r. f n = Some r \<and> g r = n) \<Longrightarrow> map g (List.map_filter f ns) = ns"
proof (induction ns)
  case Nil
  show ?case by simp
next
  case (Cons n ns)
  from Cons.prems [of n] obtain r where r: "f n = Some r" "g r = n" by auto
  have "map g (List.map_filter f ns) = ns" by (rule Cons.IH) (simp add: Cons.prems)
  with r show ?case by simp
qed

lemma map_filter_mem: "y \<in> set (List.map_filter f xs) \<Longrightarrow> \<exists>x \<in> set xs. f x = Some y"
  by (induction xs) (auto split: option.splits)

lemma mem_map_filter: "x \<in> set xs \<Longrightarrow> f x = Some y \<Longrightarrow> y \<in> set (List.map_filter f xs)"
  by (induction xs) (auto split: option.splits)

lemma set_names: "set (List.map_filter performer_name df) = {n. \<exists>r \<in> set df. performer_name r = Some n}"
  by (auto dest: map_filter_mem intro: mem_map_filter)

lemma groupby_first_names:
  "map up_performer_name (groupby_first df) = sort (remdups (List.map_filter performer_name df))"
  unfolding groupby_first_def
proof (rule map_filter_all_Some)
  fix n assume "n \<in> set (sort (remdups (List.map_filter performer_name df)))"
  then obtain r where "r \<in> set df" "performer_name r = Some n" by (auto simp: set_names)
  then have "r \<in> set (filter (\<lambda>r. performer_name r = Some n) df)" by simp
  then obtain g gs where "filter (\<lambda>r. performer_name r = Some n) df = g # gs"
    by (cases "filter (\<lambda>r. performer_name r = Some n) df") auto
  then show "\<exists>u. (case filter (\<lambda>r. performer_name r = Some n) df of
               [] \<Rightarrow> None
             | g # gs \<Rightarrow>
                 Some \<lparr>up_performer_name = n,
                       up_venue = first_valid (map venue (g # gs)),
                       up_distance_miles = distance_miles g\<rparr>) = Some u \<and> up_performer_name u = n"
    by simp
qed

lemma groupby_first_mem:
  assumes "u \<in> set (groupby_first df)"
  shows "\<exists>g gs. filter (\<lambda>r. performer_name r = Some (up_performer_name u)) df = g # gs
           \<and> up_venue u = first_valid (map venue (g # gs))
           \<and> up_distance_miles u = distance_miles g"
proof -
  from assms obtain n where
    "(case filter (\<lambda>r. performer_name r = Some n) df of
               [] \<Rightarrow> None
             | g # gs \<Rightarrow>
                 Some \<lparr>up_performer_name = n,
                       up_venue = first_valid (map venue (g # gs)),
                       up_distance_miles = distance_miles g\<rparr>) = Some u"
    unfolding groupby_first_def by (blast dest: map_filter_mem)
  then show ?thesis by (auto split: list.splits)
qed

lemma first_valid_Some: "first_valid vs = Some v \<Longrightarrow> Some v \<in> set vs"
  by (induction vs rule: first_valid.induct) auto

lemma first_valid_head: "v \<noteq> None \<Longrightarrow> first_valid (v # vs) = v"
  by (cases v) auto

lemma sorts_by_distance_stable: "sorts_by_distance stable_sort_values"
  unfolding sorts_by_distance_def stable_sort_values_def
  by (simp add: sorted_sort_key)

lemma distance_sort_order:
  "distance_sort (Miles x) < distance_sort Unknown"
  "distance_sort (Miles x) \<le> distance_sort (Miles y) \<longleftrightarrow> x \<le> y"
  by (simp_all add: distance_sort_def)

lemma groupby_first_Nil: "groupby_first [] = []"
  by (simp add: groupby_first_def)

lemma process_performers_groupby:
  assumes "sorts_by_distance sort_values"
  shows "process_performers lib sort_values now performers =
           groupby_first (sort_values (show_time_filter lib now (venue_filter performers)))"
proof (cases "performers = []")
  case True
  then have "show_time_filter lib now (venue_filter performers) = []"
    by (simp add: show_time_filter_def venue_filter_def)
  moreover from assms have "mset (sort_values []) = mset ([] :: performer list)"
    unfolding sorts_by_distance_def by blast
  ultimately have "sort_values (show_time_filter lib now (venue_filter performers)) = []" by simp
  with True show ?thesis by (simp add: process_performers_def groupby_first_Nil)
next
  case False
  then show ?thesis by (simp add: process_performers_def sorted_frame_def)
qed

text \<open>
  What holds of the code: the result has one record per distinct name that is not null;
  each carries the smallest distance of its group, where \<open>Unknown\<close> (infinity) is larger
  than every finite distance; and when no venue of the frame is null, it carries the venue
  of the occurrence that has this distance.
\<close>

lemma dedup_closest_when_venues_present:
  assumes srt: "sorts_by_distance sort_values"
    and venues: "\<forall>r \<in> set (show_time_filter lib now (venue_filter performers)). venue r \<noteq> None"
  shows "distinct (map up_performer_name (process_performers lib sort_values now performers))
    \<and> set (map up_performer_name (process_performers lib sort_values now performers)) =
        {n. \<exists>r \<in> set (show_time_filter lib now (venue_filter performers)). performer_name r = Some n}
    \<and> (\<forall>u \<in> set (process_performers lib sort_values now performers).
          \<exists>r \<in> set (show_time_filter lib now (venue_filter performers)).
            performer_name r = Some (up_performer_name u) \<and> venue r = up_venue u
            \<and> distance_miles r = up_distance_miles u
            \<and> (\<forall>r' \<in> set (show_time_filter lib now (venue_filter performers)).
                  performer_name r' = Some (up_performer_name u) \<longrightarrow>
                  distance_sort (distance_miles r) \<le> distance_sort (distance_miles r')))"
proof -
  let ?df = "show_time_filter lib now (venue_filter performers)"
  let ?sf = "sort_values ?df"
  let ?out = "process_performers lib sort_values now performers"
  from srt have perm: "mset ?sf = mset ?df"
    and sorted: "sorted (map (\<lambda>r. distance_sort (distance_miles r)) ?sf)"
    unfolding sorts_by_distance_def by auto
  from perm have sets: "set ?sf = set ?df" by (rule mset_eq_setD)
  have out: "?out = groupby_first ?sf" by (rule process_performers_groupby [OF srt])
  have names: "map up_performer_name ?out = sort (remdups (List.map_filter performer_name ?sf))"
    unfolding out by (rule groupby_first_names)
  have c1: "distinct (map up_performer_name ?out)"
    unfolding names by simp
  have c2: "set (map up_performer_name ?out) = {n. \<exists>r \<in> set ?df. performer_name r = Some n}"
    unfolding names by (simp add: set_names sets)
  have c3: "\<forall>u \<in> set ?out. \<exists>r \<in> set ?df.
            performer_name r = Some (up_performer_name u) \<and> venue r = up_venue u
            \<and> distance_miles r = up_distance_miles u
            \<and> (\<forall>r' \<in> set ?df. performer_name r' = Some (up_performer_name u) \<longrightarrow>
                  distance_sort (distance_miles r) \<le> distance_sort (distance_miles r'))"
  proof
    fix u assume "u \<in> set ?out"
    then have "u \<in> set (groupby_first ?sf)" by (simp only: out)
    from groupby_first_mem [OF this] obtain g gs where
      f: "filter (\<lambda>r. performer_name r = Some (up_performer_name u)) ?sf = g # gs"
      and v: "up_venue u = first_valid (map venue (g # gs))"
      and d: "up_distance_miles u = distance_miles g"
      by blast
    from filter_Cons_mem [OF f] have gin: "g \<in> set ?df"
      and gn: "performer_name g = Some (up_performer_name u)"
      by (auto simp: sets)
    from gin venues have "venue g \<noteq> None" by blast
    then have v': "up_venue u = venue g" unfolding v by (simp add: first_valid_head)
    have least: "\<forall>r' \<in> set ?df. performer_name r' = Some (up_performer_name u) \<longrightarrow>
                  distance_sort (distance_miles g) \<le> distance_sort (distance_miles r')"
    proof (intro ballI impI)
      fix r' assume "r' \<in> set ?df" and n': "performer_name r' = Some (up_performer_name u)"
      then have "r' \<in> set ?sf" by (simp add: sets)
      from filter_first_least [OF sorted f this n']
      show "distance_sort (distance_miles g) \<le> distance_sort (distance_miles r')" .
    qed
    from gin gn v' d least
    show "\<exists>r \<in> set ?df.
            performer_name r = Some (up_performer_name u) \<and> venue r = up_venue u
            \<and> distance_miles r = up_distance_miles u
            \<and> (\<forall>r' \<in> set ?df. performer_name r' = Some (up_performer_name u) \<longrightarrow>
                  distance_sort (distance_miles r) \<le> distance_sort (distance_miles r'))"
      by (intro bexI [of _ g]) simp_all
  qed
  from c1 c2 c3 show ?thesis by (intro conjI)
qed

text \<open>
  C3. Within a group of records of one performer name, the retained record is to carry the
  venue and the distance of the occurrence with the smallest distance. The code does so
  when no venue is null (lemma \<open>dedup_closest_when_venues_present\<close>) and fails when the
  closest occurrence has a null venue (a location whose \<open>name\<close> is \<open>null\<close>, which is
  not the empty string and passes the venue filter). The aggregation \<open>'first'\<close> skips
  null values column by column: of \<open>Ava\<close> at 0.5 miles with a null venue and \<open>Ava\<close> at
  3.2 miles in \<open>Far Hall\<close>, the retained record has the distance 0.5 of the first and the
  venue \<open>Far Hall\<close> of the second, an occurrence that is not the closest.
\<close>

theorem dedup_mixes_occurrences:
  "process_performers
      \<lparr>fromisoformat = (\<lambda>s. None), localize = (\<lambda>dt. 0), instant_of = (\<lambda>dt. 0)\<rparr>
      stable_sort_values 0
      [\<lparr>venue = Some ''Far Hall'', event_name = ''One'', event_date = Some ''2024-03-01'',
        event_start_time = [], latitude = Absent, longitude = Absent,
        distance_miles = Miles 3.2, performer_name = Some ''Ava''\<rparr>,
       \<lparr>venue = None, event_name = ''Two'', event_date = Some ''2024-03-01'',
        event_start_time = [], latitude = Absent, longitude = Absent,
        distance_miles = Miles 0.5, performer_name = Some ''Ava''\<rparr>]
     = [\<lparr>up_performer_name = ''Ava'', up_venue = Some ''Far Hall'', up_distance_miles = Miles 0.5\<rparr>]"
  by (simp add: process_performers_def sorted_frame_def show_time_filter_def venue_filter_def
      has_show_started_def stable_sort_values_def distance_sort_def groupby_first_def)

subsection \<open>Order of the processed performers and of the playlist\<close>

lemma process_performers_sorted_names:
  "sorted (map up_performer_name (process_performers lib sort_values now performers))
   \<and> distinct (map up_performer_name (process_performers lib sort_values now performers))"
  by (simp add: process_performers_def groupby_first_names)

lemma searched_artist_search_artist: "searched_artist (search_artist cat tok name) = name"
  by (simp add: search_artist_def error_result_def Let_def
      split: search_response.splits prod.splits option.splits)

lemma searched_artist_lookup: "searched_artist (lookup cat tok performers_data a) = a"
  by (simp add: lookup_def Let_def searched_artist_search_artist)

lemma main_results_names:
  "map searched_artist (main_results cat tok performers_data) = map up_performer_name performers_data"
  by (simp add: main_results_def Let_def searched_artist_lookup comp_def)

text \<open>
  C4, as the code has it. The list the processing stage returns, which is the order of the
  catalog lookups, is in strictly ascending order of performer name (\<open>groupby\<close> sorts its
  keys), whatever the distances are. The playlist-facing ranking then sorts the results by
  ascending distance, unknown distances last, keeping the lookup order among equal
  distances.
\<close>

theorem lookup_order_by_name_then_resorted:
  "sorted (map up_performer_name (process_performers lib sort_values now performers))
   \<and> distinct (map up_performer_name (process_performers lib sort_values now performers))
   \<and> map searched_artist
        (main_results cat tok (process_performers lib sort_values now performers)) =
      map up_performer_name (process_performers lib sort_values now performers)
   \<and> sorted (map get_distance (results_sorted results))
   \<and> mset (results_sorted results) = mset results
   \<and> (\<forall>k. filter (\<lambda>r. get_distance r = k) (results_sorted results) =
            filter (\<lambda>r. get_distance r = k) results)
   \<and> (\<forall>r x. result_distance_miles r = Some (Miles x) \<longrightarrow> get_distance r = (False, x))
   \<and> (\<forall>r. result_distance_miles r = Some Unknown \<or> result_distance_miles r = None
          \<longrightarrow> get_distance r = (True, 0))"
proof -
  note n = process_performers_sorted_names [of lib sort_values now performers]
  have c3: "map searched_artist
        (main_results cat tok (process_performers lib sort_values now performers)) =
      map up_performer_name (process_performers lib sort_values now performers)"
    by (rule main_results_names)
  have c4: "sorted (map get_distance (results_sorted results))"
    by (simp add: results_sorted_def)
  have c5: "mset (results_sorted results) = mset results"
    by (simp add: results_sorted_def)
  have c6: "\<forall>k. filter (\<lambda>r. get_distance r = k) (results_sorted results) =
            filter (\<lambda>r. get_distance r = k) results"
    by (simp add: results_sorted_def sort_key_stable)
  have c7: "\<forall>r x. result_distance_miles r = Some (Miles x) \<longrightarrow> get_distance r = (False, x)"
    by (simp add: get_distance_def get_default_def distance_sort_def)
  have c8: "\<forall>r. result_distance_miles r = Some Unknown \<or> result_distance_miles r = None
          \<longrightarrow> get_distance r = (True, 0)"
    by (auto simp: get_distance_def get_default_def distance_sort_def)
  from n [THEN conjunct1] n [THEN conjunct2] c3 c4 c5 c6 c7 c8 show ?thesis by (intro conjI)
qed

text \<open>
  The claim that the processed list is in ascending order of distance fails: of \<open>Ava\<close> at
  3.2 miles and \<open>Bo\<close> at 1.1 miles, \<open>Ava\<close> comes first.
\<close>

theorem processed_order_counterexample:
  "process_performers
      \<lparr>fromisoformat = (\<lambda>s. None), localize = (\<lambda>dt. 0), instant_of = (\<lambda>dt. 0)\<rparr>
      stable_sort_values 0
      [\<lparr>venue = Some ''Far Hall'', event_name = ''One'', event_date = Some ''2024-03-01'',
        event_start_time = [], latitude = Absent, longitude = Absent,
        distance_miles = Miles 3.2, performer_name = Some ''Ava''\<rparr>,
       \<lparr>venue = Some ''Near Club'', event_name = ''Two'', event_date = Some ''2024-03-01'',
        event_start_time = [], latitude = Absent, longitude = Absent,
        distance_miles = Miles 1.1, performer_name = Some ''Bo''\<rparr>]
     = [\<lparr>up_performer_name = ''Ava'', up_venue = Some ''Far Hall'', up_distance_miles = Miles 3.2\<rparr>,
        \<lparr>up_performer_name = ''Bo'', up_venue = Some ''Near Club'', up_distance_miles = Miles 1.1\<rparr>]
   \<and> \<not> sorted (map (\<lambda>u. distance_sort (up_distance_miles u))
        (process_performers
          \<lparr>fromisoformat = (\<lambda>s. None), localize = (\<lambda>dt. 0), instant_of = (\<lambda>dt. 0)\<rparr>
          stable_sort_values 0
          [\<lparr>venue = Some ''Far Hall'', event_name = ''One'', event_date = Some ''2024-03-01'',
            event_start_time = [], latitude = Absent, longitude = Absent,
            distance_miles = Miles 3.2, performer_name = Some ''Ava''\<rparr>,
           \<lparr>venue = Some ''Near Club'', event_name = ''Two'', event_date = Some ''2024-03-01'',
            event_start_time = [], latitude = Absent, longitude = Absent,
            distance_miles = Miles 1.1, performer_name = Some ''Bo''\<rparr>]))"
  by (simp add: process_performers_def sorted_frame_def show_time_filter_def venue_filter_def
      has_show_started_def stable_sort_values_def distance_sort_def groupby_first_def)

theorem lookup_order_by_name_then_resorted_witness:
  "sorted (map up_performer_name
      (process_performers
        \<lparr>fromisoformat = (\<lambda>s. None), localize = (\<lambda>dt. 0), instant_of = (\<lambda>dt. 0)\<rparr>
        stable_sort_values 0
        [\<lparr>venue = Some ''Near Club'', event_name = ''Two'', event_date = Some ''2024-03-01'',
          event_start_time = [], latitude = Absent, longitude = Absent,
          distance_miles = Miles 1.1, performer_name = Some ''Bo''\<rparr>,
         \<lparr>venue = Some ''Far Hall'', event_name = ''One'', event_date = Some ''2024-03-01'',
          event_start_time = [], latitude = Absent, longitude = Absent,
          distance_miles = Miles 3.2, performer_name = Some ''Ava''\<rparr>]))
   \<and> get_distance ((error_result ''Bo'' No_artist_found)
         \<lparr>result_venue := Some (Some ''Near Club''), result_distance_miles := Some (Miles 1.1)\<rparr>)
       = (False, 1.1)
   \<and> get_distance ((error_result ''Cy'' No_artist_found)
         \<lparr>result_venue := Some (Some ''Bar''), result_distance_miles := Some Unknown\<rparr>)
       = (True, 0)
   \<and> results_sorted
        [(error_result ''Ava'' No_artist_found)
           \<lparr>result_venue := Some (Some ''Far Hall''), result_distance_miles := Some (Miles 3.2)\<rparr>,
         (error_result ''Cy'' No_artist_found)
           \<lparr>result_venue := Some (Some ''Bar''), result_distance_miles := Some Unknown\<rparr>,
         (error_result ''Bo'' No_artist_found)
           \<lparr>result_venue := Some (Some ''Near Club''), result_distance_miles := Some (Miles 1.1)\<rparr>]
       = [(error_result ''Bo'' No_artist_found)
           \<lparr>result_venue := Some (Some ''Near Club''), result_distance_miles := Some (Miles 1.1)\<rparr>,
          (error_result ''Ava'' No_artist_found)
           \<lparr>result_venue := Some (Some ''Far Hall''), result_distance_miles := Some (Miles 3.2)\<rparr>,
          (error_result ''Cy'' No_artist_found)
           \<lparr>result_venue := Some (Some ''Bar''), result_distance_miles := Some Unknown\<rparr>]"
  (is "?A \<and> ?B \<and> ?C \<and> ?D")
proof -
  note T = lookup_order_by_name_then_resorted
  have a: ?A by (rule T [THEN conjunct1])
  have "result_distance_miles ((error_result ''Bo'' No_artist_found)
         \<lparr>result_venue := Some (Some ''Near Club''), result_distance_miles := Some (Miles 1.1)\<rparr>)
       = Some (Miles 1.1)" by simp
  then have b: ?B
    by (rule T [THEN conjunct2, THEN conjunct2, THEN conjunct2, THEN conjunct2, THEN conjunct2,
          THEN conjunct2, THEN conjunct1, THEN spec, THEN spec, THEN mp])
  have "result_distance_miles ((error_result ''Cy'' No_artist_found)
         \<lparr>result_venue := Some (Some ''Bar''), result_distance_miles := Some Unknown\<rparr>) = Some Unknown
       \<or> result_distance_miles ((error_result ''Cy'' No_artist_found)
         \<lparr>result_venue := Some (Some ''Bar''), result_distance_miles := Some Unknown\<rparr>) = None" by simp
  then have c: ?C
    by (rule T [THEN conjunct2, THEN conjunct2, THEN conjunct2, THEN conjunct2, THEN conjunct2,
          THEN conjunct2, THEN conjunct2, THEN spec, THEN mp])
  have d: ?D
    by (simp add: results_sorted_def get_distance_def get_default_def distance_sort_def
        error_result_def)
  from a b c d show ?thesis by (intro conjI)
qed

subsection \<open>Records without a venue\<close>

lemma sorted_frame_set:
  assumes "sorts_by_distance sort_values"
  shows "set (sorted_frame lib sort_values now performers) =
           set (show_time_filter lib now (venue_filter performers))"
proof -
  from assms have "mset (sort_values (show_time_filter lib now (venue_filter performers))) =
      mset (show_time_filter lib now (venue_filter performers))"
    unfolding sorts_by_distance_def by blast
  then show ?thesis unfolding sorted_frame_def by (rule mset_eq_setD)
qed

lemma filtered_venue: "r \<in> set (show_time_filter lib now (venue_filter performers)) \<Longrightarrow> venue r \<noteq> Some []"
  by (simp add: show_time_filter_def venue_filter_def)

text \<open>
  C10. A record whose venue is the empty string is removed first: the show-time filter reads
  only records with a venue, and no record of the sorted frame (the snapshot) and no entry
  of the deduplicated output has an empty venue.
\<close>

theorem empty_venue_removed:
  assumes srt: "sorts_by_distance sort_values"
  shows "(\<forall>u \<in> set (process_performers lib sort_values now performers). up_venue u \<noteq> Some [])
    \<and> (\<forall>r \<in> set (sorted_frame lib sort_values now performers). venue r \<noteq> Some [])
    \<and> sorted_frame lib sort_values now performers =
        sort_values (show_time_filter lib now (filter (\<lambda>r. venue r \<noteq> Some []) performers))"
proof -
  have frame: "\<forall>r \<in> set (sorted_frame lib sort_values now performers). venue r \<noteq> Some []"
    unfolding sorted_frame_set [OF srt] by (blast dest: filtered_venue)
  have out: "\<forall>u \<in> set (process_performers lib sort_values now performers). up_venue u \<noteq> Some []"
  proof
    fix u assume u: "u \<in> set (process_performers lib sort_values now performers)"
    then have ne: "performers \<noteq> []" by (auto simp: process_performers_def)
    with u have "u \<in> set (groupby_first (sorted_frame lib sort_values now performers))"
      by (simp add: process_performers_def)
    from groupby_first_mem [OF this] obtain g gs where
      f: "filter (\<lambda>r. performer_name r = Some (up_performer_name u))
            (sorted_frame lib sort_values now performers) = g # gs"
      and v: "up_venue u = first_valid (map venue (g # gs))" by blast
    show "up_venue u \<noteq> Some []"
    proof
      assume "up_venue u = Some []"
      with v have "first_valid (map venue (g # gs)) = Some []" by simp
      then have "Some [] \<in> set (map venue (g # gs))" by (rule first_valid_Some)
      then have "\<exists>r \<in> set (g # gs). venue r = Some []"
        by (simp only: set_map image_iff) (blast intro: sym)
      then obtain r where "r \<in> set (g # gs)" and e: "venue r = Some []" by blast
      with filter_Cons_mem [OF f] have "r \<in> set (sorted_frame lib sort_values now performers)"
        by blast
      with frame e show False by blast
    qed
  qed
  have order: "sorted_frame lib sort_values now performers =
        sort_values (show_time_filter lib now (filter (\<lambda>r. venue r \<noteq> Some []) performers))"
    by (simp add: sorted_frame_def venue_filter_def)
  from out frame order show ?thesis by (intro conjI)
qed

theorem empty_venue_removed_witness:
  "sorts_by_distance stable_sort_values
   \<and> up_venue (hd (process_performers
        \<lparr>fromisoformat = (\<lambda>s. None), localize = (\<lambda>dt. 0), instant_of = (\<lambda>dt. 0)\<rparr>
        stable_sort_values 0
        [\<lparr>venue = Some [], event_name = ''One'', event_date = Some ''2024-03-01'',
          event_start_time = [], latitude = Absent, longitude = Absent,
          distance_miles = Miles 0.5, performer_name = Some ''Ava''\<rparr>,
         \<lparr>venue = Some ''Far Hall'', event_name = ''Two'', event_date = Some ''2024-03-01'',
          event_start_time = [], latitude = Absent, longitude = Absent,
          distance_miles = Miles 3.2, performer_name = Some ''Ava''\<rparr>,
         \<lparr>venue = Some [], event_name = ''Three'', event_date = Some ''2024-03-01'',
          event_start_time = [], latitude = Absent, longitude = Absent,
          distance_miles = Miles 1, performer_name = Some ''Bo''\<rparr>])) \<noteq> Some []
   \<and> process_performers
        \<lparr>fromisoformat = (\<lambda>s. None), localize = (\<lambda>dt. 0), instant_of = (\<lambda>dt. 0)\<rparr>
        stable_sort_values 0
        [\<lparr>venue = Some [], event_name = ''One'', event_date = Some ''2024-03-01'',
          event_start_time = [], latitude = Absent, longitude = Absent,
          distance_miles = Miles 0.5, performer_name = Some ''Ava''\<rparr>,
         \<lparr>venue = Some ''Far Hall'', event_name = ''Two'', event_date = Some ''2024-03-01'',
          event_start_time = [], latitude = Absent, longitude = Absent,
          distance_miles = Miles 3.2, performer_name = Some ''Ava''\<rparr>,
         \<lparr>venue = Some [], event_name = ''Three'', event_date = Some ''2024-03-01'',
          event_start_time = [], latitude = Absent, longitude = Absent,
          distance_miles = Miles 1, performer_name = Some ''Bo''\<rparr>]
      = [\<lparr>up_performer_name = ''Ava'', up_venue = Some ''Far Hall'', up_distance_miles = Miles 3.2\<rparr>]"
  (is "?H \<and> up_venue (hd ?out) \<noteq> Some [] \<and> ?E")
proof -
  have h: ?H by (rule sorts_by_distance_stable)
  have e: ?E
    by (simp add: process_performers_def sorted_frame_def show_time_filter_def venue_filter_def
        has_show_started_def stable_sort_values_def distance_sort_def groupby_first_def)
  have mem: "hd ?out \<in> set ?out" unfolding e by simp
  have v: "up_venue (hd ?out) \<noteq> Some []"
    by (rule empty_venue_removed [OF h, THEN conjunct1, THEN bspec, OF mem])
  from h v e show ?thesis by (intro conjI)
qed

subsection \<open>Festivals\<close>

lemma extract_event_data_raises:
  "extract_event_data lib self ev = None \<longleftrightarrow>
     ev_startDate ev = StartScalar \<or> ev_location ev = LocationOther
     \<or> (\<exists>l. ev_location ev = LocationObj l \<and> location_geo l = GeoOther)"
  by (auto simp: extract_event_data_def Let_def
      split: json_start.splits json_location.splits json_geo.splits)

lemma scrape_event_acc:
  "scrape_event lib self jev (p, e, f) =
     (case scrape_event lib self jev ([], 0, 0) of
        Done (ps, e', f') \<Rightarrow> Done (p @ ps, e + e', f + f')
      | Raised (ps, e', f') \<Rightarrow> Raised (p @ ps, e + e', f + f'))"
  by (simp add: scrape_event_def Let_def split: json_event.splits option.splits)

lemma scrape_event_Raised_fst:
  "scrape_event lib self jev ([], 0, 0) = Raised acc \<Longrightarrow> fst acc = []"
  by (auto simp: scrape_event_def Let_def split: json_event.splits option.splits if_splits)

lemma scrape_events_fst:
  "fst (scrape_events lib self jevs acc) =
     fst acc @ concat (map (\<lambda>jev. fst (state_of (scrape_event lib self jev ([], 0, 0))))
                        (takeWhile (\<lambda>jev. is_Done (scrape_event lib self jev ([], 0, 0))) jevs))"
proof (induction jevs arbitrary: acc)
  case Nil
  show ?case by simp
next
  case (Cons jev jevs)
  obtain p e f where acc: "acc = (p, e, f)" by (cases acc)
  show ?case
  proof (cases "scrape_event lib self jev ([], 0, 0)")
    case (Done acc0)
    obtain ps e' f' where acc0: "acc0 = (ps, e', f')" by (cases acc0)
    have step: "scrape_event lib self jev (p, e, f) = Done (p @ ps, e + e', f + f')"
      by (subst scrape_event_acc) (simp add: Done acc0)
    show ?thesis
      by (simp add: step Cons.IH Done acc0 acc)
  next
    case (Raised acc0)
    obtain ps e' f' where acc0: "acc0 = (ps, e', f')" by (cases acc0)
    from scrape_event_Raised_fst [OF Raised] have ps: "ps = []" by (simp add: acc0)
    have step: "scrape_event lib self jev (p, e, f) = Raised (p @ ps, e + e', f + f')"
      by (subst scrape_event_acc) (simp add: Raised acc0)
    show ?thesis
      by (simp add: step Raised acc0 acc ps)
  qed
qed

lemma scrape_blocks_fst:
  "fst (scrape_blocks lib self bs acc) =
     fst acc @ concat (map (\<lambda>b. case b of
          None \<Rightarrow> []
        | Some data \<Rightarrow>
            concat (map (\<lambda>jev. fst (state_of (scrape_event lib self jev ([], 0, 0))))
                     (takeWhile (\<lambda>jev. is_Done (scrape_event lib self jev ([], 0, 0)))
                        (events_of data)))) bs)"
proof (induction bs arbitrary: acc)
  case Nil
  show ?case by simp
next
  case (Cons b bs)
  show ?case
  proof (cases b)
    case None
    then show ?thesis by (simp add: Cons.IH)
  next
    case (Some data)
    then show ?thesis by (simp add: Cons.IH scrape_events_fst)
  qed
qed

lemma scrape_page_fst:
  "fst (scrape_page lib self (Some pg)) = fst (scrape_blocks lib self (blocks pg) ([], 0, 0))"
  by (simp add: scrape_page_def split: prod.splits)

text \<open>
  C5, as the code has it. The performer limit is 6. An event that lists more than 6
  performers is counted as a festival, adds no performer record, and the loop goes on to
  the next event. An event that lists 6 performers or fewer adds one record per listed
  name, in the order of the list, when the loop reaches it and its data can be extracted.
  Extracting the data raises when the start date is a number, the location is no object or
  its \<open>geo\<close> is a truthy value that is no object; the \<open>try\<close> around the block then ends
  the block: that event and the later events of the block add nothing. The performers of a
  page are, block by block, the records of the events before the first one that raises.
\<close>

theorem festival_excluded:
  "FESTIVAL_PERFORMER_LIMIT = 6
   \<and> (length (performer_list_of ev) > FESTIVAL_PERFORMER_LIMIT \<longrightarrow>
        scrape_event lib self (EventObj ev) (performers, event_count, festival_count) =
          Done (performers, event_count + 1, festival_count + 1))
   \<and> (length (performer_list_of ev) \<le> FESTIVAL_PERFORMER_LIMIT
        \<and> extract_event_data lib self ev = Some ed \<longrightarrow>
        scrape_event lib self (EventObj ev) (performers, event_count, festival_count) =
          Done (performers @ map (\<lambda>p. performer_row ed (name_of p)) (performer_list_of ev),
                event_count + 1, festival_count)
        \<and> map performer_name (map (\<lambda>p. performer_row ed (name_of p)) (performer_list_of ev)) =
            map name_of (performer_list_of ev))
   \<and> (length (performer_list_of ev) \<le> FESTIVAL_PERFORMER_LIMIT
        \<and> extract_event_data lib self ev = None \<longrightarrow>
        scrape_event lib self (EventObj ev) (performers, event_count, festival_count) =
          Raised (performers, event_count + 1, festival_count)
        \<and> scrape_events lib self (EventObj ev # later) (performers, event_count, festival_count) =
            (performers, event_count + 1, festival_count))
   \<and> (extract_event_data lib self ev = None \<longleftrightarrow>
        ev_startDate ev = StartScalar \<or> ev_location ev = LocationOther
        \<or> (\<exists>l. ev_location ev = LocationObj l \<and> location_geo l = GeoOther))
   \<and> fst (scrape_page lib self (Some pg)) =
       concat (map (\<lambda>b. case b of
          None \<Rightarrow> []
        | Some data \<Rightarrow>
            concat (map (\<lambda>jev. fst (state_of (scrape_event lib self jev ([], 0, 0))))
                     (takeWhile (\<lambda>jev. is_Done (scrape_event lib self jev ([], 0, 0)))
                        (events_of data)))) (blocks pg))"
proof -
  have c1: "FESTIVAL_PERFORMER_LIMIT = 6" by (simp add: FESTIVAL_PERFORMER_LIMIT_def)
  have c2: "length (performer_list_of ev) > FESTIVAL_PERFORMER_LIMIT \<longrightarrow>
        scrape_event lib self (EventObj ev) (performers, event_count, festival_count) =
          Done (performers, event_count + 1, festival_count + 1)"
    by (simp add: scrape_event_def Let_def)
  have c3: "length (performer_list_of ev) \<le> FESTIVAL_PERFORMER_LIMIT
        \<and> extract_event_data lib self ev = Some ed \<longrightarrow>
        scrape_event lib self (EventObj ev) (performers, event_count, festival_count) =
          Done (performers @ map (\<lambda>p. performer_row ed (name_of p)) (performer_list_of ev),
                event_count + 1, festival_count)
        \<and> map performer_name (map (\<lambda>p. performer_row ed (name_of p)) (performer_list_of ev)) =
            map name_of (performer_list_of ev)"
    by (simp add: scrape_event_def Let_def performer_row_def comp_def)
  have c4: "length (performer_list_of ev) \<le> FESTIVAL_PERFORMER_LIMIT
        \<and> extract_event_data lib self ev = None \<longrightarrow>
        scrape_event lib self (EventObj ev) (performers, event_count, festival_count) =
          Raised (performers, event_count + 1, festival_count)
        \<and> scrape_events lib self (EventObj ev # later) (performers, event_count, festival_count) =
            (performers, event_count + 1, festival_count)"
    by (simp add: scrape_event_def Let_def)
  have c5: "extract_event_data lib self ev = None \<longleftrightarrow>
        ev_startDate ev = StartScalar \<or> ev_location ev = LocationOther
        \<or> (\<exists>l. ev_location ev = LocationObj l \<and> location_geo l = GeoOther)"
    by (rule extract_event_data_raises)
  have c6: "fst (scrape_page lib self (Some pg)) =
       concat (map (\<lambda>b. case b of
          None \<Rightarrow> []
        | Some data \<Rightarrow>
            concat (map (\<lambda>jev. fst (state_of (scrape_event lib self jev ([], 0, 0))))
                     (takeWhile (\<lambda>jev. is_Done (scrape_event lib self jev ([], 0, 0)))
                        (events_of data)))) (blocks pg))"
    by (simp add: scrape_page_fst scrape_blocks_fst)
  from c1 c2 c3 c4 c5 c6 show ?thesis by (intro conjI)
qed

text \<open>
  The claim that an event with 6 performers or fewer contributes one record per listed name
  fails: of two events of one block, each with at most two performers, the first has a
  location that is no object; extracting its data raises, the block ends, and the page
  yields no performer at all.
\<close>

theorem small_event_dropped_counterexample:
  "length (performer_list_of
       \<lparr>ev_name = Some ''Odd'', ev_startDate = StartText ''2024-03-01'',
          ev_location = LocationOther, ev_performer = PerformerList [PerformerStr ''Ava'']\<rparr>) \<le> FESTIVAL_PERFORMER_LIMIT
   \<and> length (performer_list_of
       \<lparr>ev_name = Some ''Gig'', ev_startDate = StartText ''2024-03-01'',
          ev_location = LocationObj \<lparr>location_name = Some (Text ''Hall''), location_geo = GeoFalsy\<rparr>,
          ev_performer = PerformerList
            [PerformerDict [(''@type'', Text ''MusicGroup''), (''name'', Text ''Bo'')],
             PerformerStr ''Cy'']\<rparr>) \<le> FESTIVAL_PERFORMER_LIMIT
   \<and> scrape_page
       \<lparr>fromisoformat = (\<lambda>s. None), localize = (\<lambda>dt. 0), instant_of = (\<lambda>dt. 0)\<rparr>
       \<lparr>scraper_lat = Num 42.004414, scraper_lon = Num (- 87.671304)\<rparr>
       (Some \<lparr>blocks = [Some (Many
          [EventObj \<lparr>ev_name = Some ''Odd'', ev_startDate = StartText ''2024-03-01'',
          ev_location = LocationOther, ev_performer = PerformerList [PerformerStr ''Ava'']\<rparr>,
           EventObj \<lparr>ev_name = Some ''Gig'', ev_startDate = StartText ''2024-03-01'',
          ev_location = LocationObj \<lparr>location_name = Some (Text ''Hall''), location_geo = GeoFalsy\<rparr>,
          ev_performer = PerformerList
            [PerformerDict [(''@type'', Text ''MusicGroup''), (''name'', Text ''Bo'')],
             PerformerStr ''Cy'']\<rparr>])],
        next_page = None\<rparr>)
     = ([], 1, 0,
        Some \<lparr>blocks = [Some (Many
          [EventObj \<lparr>ev_name = Some ''Odd'', ev_startDate = StartText ''2024-03-01'',
          ev_location = LocationOther, ev_performer = PerformerList [PerformerStr ''Ava'']\<rparr>,
           EventObj \<lparr>ev_name = Some ''Gig'', ev_startDate = StartText ''2024-03-01'',
          ev_location = LocationObj \<lparr>location_name = Some (Text ''Hall''), location_geo = GeoFalsy\<rparr>,
          ev_performer = PerformerList
            [PerformerDict [(''@type'', Text ''MusicGroup''), (''name'', Text ''Bo'')],
             PerformerStr ''Cy'']\<rparr>])],
        next_page = None\<rparr>)"
  by (simp add: scrape_page_def events_of_def scrape_event_def performer_list_of_def
      extract_event_data_def FESTIVAL_PERFORMER_LIMIT_def)

theorem festival_excluded_witness:
  "length (performer_list_of
       \<lparr>ev_name = Some ''Fest'', ev_startDate = StartText ''2024-03-01'',
          ev_location = LocationObj \<lparr>location_name = Some (Text ''Park''), location_geo = GeoFalsy\<rparr>,
          ev_performer = PerformerList
            [PerformerStr ''P1'', PerformerStr ''P2'', PerformerStr ''P3'', PerformerStr ''P4'',
             PerformerStr ''P5'', PerformerStr ''P6'', PerformerStr ''P7'']\<rparr>) > FESTIVAL_PERFORMER_LIMIT
   \<and> scrape_event
       \<lparr>fromisoformat = (\<lambda>s. None), localize = (\<lambda>dt. 0), instant_of = (\<lambda>dt. 0)\<rparr>
       \<lparr>scraper_lat = Num 42.004414, scraper_lon = Num (- 87.671304)\<rparr>
       (EventObj \<lparr>ev_name = Some ''Fest'', ev_startDate = StartText ''2024-03-01'',
          ev_location = LocationObj \<lparr>location_name = Some (Text ''Park''), location_geo = GeoFalsy\<rparr>,
          ev_performer = PerformerList
            [PerformerStr ''P1'', PerformerStr ''P2'', PerformerStr ''P3'', PerformerStr ''P4'',
             PerformerStr ''P5'', PerformerStr ''P6'', PerformerStr ''P7'']\<rparr>) ([], 0, 0) = Done ([], 0 + 1, 0 + 1)
   \<and> extract_event_data
       \<lparr>fromisoformat = (\<lambda>s. None), localize = (\<lambda>dt. 0), instant_of = (\<lambda>dt. 0)\<rparr>
       \<lparr>scraper_lat = Num 42.004414, scraper_lon = Num (- 87.671304)\<rparr>
       \<lparr>ev_name = Some ''Gig'', ev_startDate = StartText ''2024-03-01'',
          ev_location = LocationObj \<lparr>location_name = Some (Text ''Hall''), location_geo = GeoFalsy\<rparr>,
          ev_performer = PerformerList
            [PerformerDict [(''@type'', Text ''MusicGroup''), (''name'', Text ''Bo'')],
             PerformerStr ''Cy'']\<rparr>
     = Some \<lparr>venue = Some ''Hall'', event_name = ''Gig'', event_date = Some ''2024-03-01'',
          event_start_time = [], latitude = Absent, longitude = Absent, distance_miles = Unknown\<rparr>
   \<and> map performer_name
       (map (\<lambda>p. performer_row
          \<lparr>venue = Some ''Hall'', event_name = ''Gig'', event_date = Some ''2024-03-01'',
          event_start_time = [], latitude = Absent, longitude = Absent, distance_miles = Unknown\<rparr> (name_of p))
        (performer_list_of
          \<lparr>ev_name = Some ''Gig'', ev_startDate = StartText ''2024-03-01'',
          ev_location = LocationObj \<lparr>location_name = Some (Text ''Hall''), location_geo = GeoFalsy\<rparr>,
          ev_performer = PerformerList
            [PerformerDict [(''@type'', Text ''MusicGroup''), (''name'', Text ''Bo'')],
             PerformerStr ''Cy'']\<rparr>))
     = [Some ''Bo'', Some ''Cy'']
   \<and> scrape_events
       \<lparr>fromisoformat = (\<lambda>s. None), localize = (\<lambda>dt. 0), instant_of = (\<lambda>dt. 0)\<rparr>
       \<lparr>scraper_lat = Num 42.004414, scraper_lon = Num (- 87.671304)\<rparr>
       [EventObj \<lparr>ev_name = Some ''Odd'', ev_startDate = StartText ''2024-03-01'',
          ev_location = LocationOther, ev_performer = PerformerList [PerformerStr ''Ava'']\<rparr>,
        EventObj \<lparr>ev_name = Some ''Gig'', ev_startDate = StartText ''2024-03-01'',
          ev_location = LocationObj \<lparr>location_name = Some (Text ''Hall''), location_geo = GeoFalsy\<rparr>,
          ev_performer = PerformerList
            [PerformerDict [(''@type'', Text ''MusicGroup''), (''name'', Text ''Bo'')],
             PerformerStr ''Cy'']\<rparr>] ([], 0, 0) = ([], 0 + 1, 0)"
  (is "length (performer_list_of ?fest) > _ \<and> scrape_event ?lib ?self _ _ = _
       \<and> extract_event_data _ _ ?good = Some ?ed \<and> _ \<and> scrape_events _ _ [EventObj ?bad, _] _ = _")
proof -
  note T = festival_excluded [where lib = ?lib and self = ?self and performers = "[]"
      and event_count = 0 and festival_count = 0]
  have h1: "length (performer_list_of ?fest) > FESTIVAL_PERFORMER_LIMIT"
    by (simp add: performer_list_of_def FESTIVAL_PERFORMER_LIMIT_def)
  have e2: "extract_event_data ?lib ?self ?good = Some ?ed"
    by (simp add: extract_event_data_def calculate_distance_def get_default_def)
  have h2: "length (performer_list_of ?good) \<le> FESTIVAL_PERFORMER_LIMIT
      \<and> extract_event_data ?lib ?self ?good = Some ?ed"
    using e2 by (simp add: performer_list_of_def FESTIVAL_PERFORMER_LIMIT_def)
  have h3: "length (performer_list_of ?bad) \<le> FESTIVAL_PERFORMER_LIMIT
      \<and> extract_event_data ?lib ?self ?bad = None"
    by (simp add: performer_list_of_def FESTIVAL_PERFORMER_LIMIT_def extract_event_data_def)
  note c1 = T [where ev = ?fest, THEN conjunct2, THEN conjunct1, THEN mp, OF h1]
  note c2 = T [where ev = ?good and ed = ?ed, THEN conjunct2, THEN conjunct2, THEN conjunct1,
      THEN mp, OF h2, THEN conjunct2]
  note c3 = T [where ev = ?bad and later = "[EventObj ?good]", THEN conjunct2, THEN conjunct2,
      THEN conjunct2, THEN conjunct1, THEN mp, OF h3, THEN conjunct2]
  have n: "map name_of (performer_list_of ?good) = [Some ''Bo'', Some ''Cy'']"
    by (simp add: performer_list_of_def)
  from h1 c1 e2 c2 [unfolded n] c3 show ?thesis by (intro conjI)
qed

subsection \<open>Failures of one item\<close>

lemma scrape_blocks_append:
  "scrape_blocks lib self (bs1 @ bs2) acc = scrape_blocks lib self bs2 (scrape_blocks lib self bs1 acc)"
proof (induction bs1 arbitrary: acc)
  case Nil
  show ?case by simp
next
  case (Cons b bs1)
  show ?case by (cases b) (simp_all add: Cons.IH)
qed

lemma scrape_blocks_malformed:
  "scrape_blocks lib self (bs1 @ None # bs2) acc = scrape_blocks lib self (bs1 @ bs2) acc"
  by (simp add: scrape_blocks_append)

lemma is_Done_scrape_event:
  "is_Done (scrape_event lib self jev acc) = is_Done (scrape_event lib self jev ([], 0, 0))"
proof -
  obtain p e f where acc: "acc = (p, e, f)" by (cases acc)
  show ?thesis
    unfolding acc by (subst scrape_event_acc) (simp split: outcome.splits prod.splits)
qed

lemma scrape_events_raise:
  assumes "\<not> is_Done (scrape_event lib self jev ([], 0, 0))"
  shows "scrape_events lib self (before @ jev # later) acc =
           scrape_events lib self (before @ [jev]) acc"
proof (induction before arbitrary: acc)
  case Nil
  from assms have "\<not> is_Done (scrape_event lib self jev acc)"
    using is_Done_scrape_event [of lib self jev acc] by simp
  then obtain acc' where "scrape_event lib self jev acc = Raised acc'"
    by (cases "scrape_event lib self jev acc") simp_all
  then show ?case by simp
next
  case (Cons b before)
  show ?case by (simp add: Cons.IH split: outcome.splits)
qed

lemma scrape_page_blockwise:
  "fst (scrape_page lib self (Some pg)) =
     concat (map (\<lambda>b. fst (scrape_blocks lib self [b] ([], 0, 0))) (blocks pg))"
proof -
  have "fst (scrape_blocks lib self [b] ([], 0, 0)) =
      (case b of
          None \<Rightarrow> []
        | Some data \<Rightarrow>
            concat (map (\<lambda>jev. fst (state_of (scrape_event lib self jev ([], 0, 0))))
                     (takeWhile (\<lambda>jev. is_Done (scrape_event lib self jev ([], 0, 0)))
                        (events_of data))))" for b
    by (simp add: scrape_blocks_fst)
  then show ?thesis
    by (simp add: scrape_page_fst scrape_blocks_fst [of lib self "blocks pg"])
qed

lemma search_artist_no_venue:
  "result_venue (search_artist cat tok name) = None
   \<and> result_distance_miles (search_artist cat tok name) = None"
  by (auto simp: search_artist_def error_result_def Let_def
      split: search_response.splits prod.splits option.splits)

lemma lookup_is_search_artist:
  "(lookup cat tok performers_data a)\<lparr>result_venue := None, result_distance_miles := None\<rparr> =
     search_artist cat tok a"
  using search_artist_no_venue [of cat tok a]
  by (cases "search_artist cat tok a") (simp add: lookup_def Let_def)

lemma search_artist_no_token:
  "tok = None \<or> tok = Some [] \<Longrightarrow> search_artist cat tok name = error_result name No_access_token"
  by (auto simp: search_artist_def)

lemma search_artist_request_failed:
  "tok \<noteq> None \<Longrightarrow> tok \<noteq> Some [] \<Longrightarrow> search cat (clean_artist_name name) = Request_failed e
     \<Longrightarrow> search_artist cat tok name = error_result name (Search_error e)"
  by (auto simp: search_artist_def Let_def)

lemma search_artist_api_error:
  "tok \<noteq> None \<Longrightarrow> tok \<noteq> Some [] \<Longrightarrow> search cat (clean_artist_name name) = No_artists_key d
     \<Longrightarrow> search_artist cat tok name = error_result name (API_Error d)"
  by (auto simp: search_artist_def Let_def)

lemma search_artist_no_candidates:
  "tok \<noteq> None \<Longrightarrow> tok \<noteq> Some [] \<Longrightarrow> search cat (clean_artist_name name) = Artists []
     \<Longrightarrow> search_artist cat tok name = error_result name No_artist_found"
  by (auto simp: search_artist_def Let_def)

lemma search_artist_no_match:
  "tok \<noteq> None \<Longrightarrow> tok \<noteq> Some [] \<Longrightarrow> search cat (clean_artist_name name) = Artists artists
     \<Longrightarrow> artists \<noteq> [] \<Longrightarrow> fst (best_match_for (ratio_of cat) artists name) = None
     \<Longrightarrow> search_artist cat tok name = error_result name No_suitable_artist_found"
  by (auto simp: search_artist_def Let_def best_match_for_def split: prod.splits)

lemma main_results_nth:
  "i < length performers_data \<Longrightarrow>
     main_results cat tok performers_data ! i =
       lookup cat tok performers_data (up_performer_name (performers_data ! i))"
  by (simp add: main_results_def Let_def)

lemma scrape_page_Some:
  "scrape_page lib self (Some pg) =
     (fst (scrape_blocks lib self (blocks pg) ([], 0, 0)),
      fst (snd (scrape_blocks lib self (blocks pg) ([], 0, 0))),
      snd (snd (scrape_blocks lib self (blocks pg) ([], 0, 0))), Some pg)"
  by (simp add: scrape_page_def split: prod.splits)

text \<open>
  C9, as the code has it. An artist lookup for a performer name never raises: without a
  token, on a failed request, on an answer without candidates and when no candidate
  matches, it returns a result tagged with the error and naming the performer that was
  searched; there is one result per performer, each the result of its own lookup, so a
  failed lookup leaves the others as they are. On a listing page a failure is isolated per
  structured-data block, not per event. A block that does not parse contributes nothing.
  When processing an event of a block raises (the event is no object, or extracting its
  data raises), the events before it are kept and the later events of the block are lost.
  What a page yields is the concatenation of what each of its blocks yields on its own, so
  neither failure touches the other blocks; the link to the next page is the same.
\<close>

theorem failures_isolated:
  "(tok = None \<or> tok = Some [] \<longrightarrow>
        search_artist cat tok name = error_result name No_access_token)
   \<and> (tok \<noteq> None \<and> tok \<noteq> Some [] \<and> search cat (clean_artist_name name) = Request_failed e \<longrightarrow>
        search_artist cat tok name = error_result name (Search_error e))
   \<and> (tok \<noteq> None \<and> tok \<noteq> Some [] \<and> search cat (clean_artist_name name) = No_artists_key d \<longrightarrow>
        search_artist cat tok name = error_result name (API_Error d))
   \<and> (tok \<noteq> None \<and> tok \<noteq> Some [] \<and> search cat (clean_artist_name name) = Artists [] \<longrightarrow>
        search_artist cat tok name = error_result name No_artist_found)
   \<and> (tok \<noteq> None \<and> tok \<noteq> Some [] \<and> search cat (clean_artist_name name) = Artists artists
        \<and> artists \<noteq> [] \<and> fst (best_match_for (ratio_of cat) artists name) = None \<longrightarrow>
        search_artist cat tok name = error_result name No_suitable_artist_found)
   \<and> error (error_result name reason) = Some reason
   \<and> searched_artist (error_result name reason) = name
   \<and> length (main_results cat tok performers_data) = length performers_data
   \<and> (\<forall>i < length performers_data.
        main_results cat tok performers_data ! i =
          lookup cat tok performers_data (up_performer_name (performers_data ! i)))
   \<and> (\<forall>i < length performers_data.
        (main_results cat tok performers_data ! i)
          \<lparr>result_venue := None, result_distance_miles := None\<rparr> =
          search_artist cat tok (up_performer_name (performers_data ! i)))
   \<and> searched_artist (lookup cat tok performers_data a) = a
   \<and> scrape_blocks lib self (bs1 @ None # bs2) acc = scrape_blocks lib self (bs1 @ bs2) acc
   \<and> scrape_blocks lib self [None] ([], 0, 0) = ([], 0, 0)
   \<and> (\<exists>performers event_count festival_count.
        scrape_page lib self (Some \<lparr>blocks = bs1 @ None # bs2, next_page = nx\<rparr>) =
          (performers, event_count, festival_count, Some \<lparr>blocks = bs1 @ None # bs2, next_page = nx\<rparr>)
        \<and> scrape_page lib self (Some \<lparr>blocks = bs1 @ bs2, next_page = nx\<rparr>) =
          (performers, event_count, festival_count, Some \<lparr>blocks = bs1 @ bs2, next_page = nx\<rparr>))
   \<and> get_next_page_url (Some \<lparr>blocks = bs1 @ None # bs2, next_page = nx\<rparr>) =
        get_next_page_url (Some \<lparr>blocks = bs1 @ bs2, next_page = nx\<rparr>)
   \<and> (\<not> is_Done (scrape_event lib self jev ([], 0, 0)) \<longrightarrow>
        scrape_events lib self (before @ jev # later) acc =
          scrape_events lib self (before @ [jev]) acc)
   \<and> (is_Done (scrape_event lib self jev ([], 0, 0)) \<longleftrightarrow>
        (case jev of
           EventOther \<Rightarrow> False
         | EventObj ev \<Rightarrow>
             length (performer_list_of ev) > FESTIVAL_PERFORMER_LIMIT
             \<or> extract_event_data lib self ev \<noteq> None))
   \<and> fst (scrape_page lib self (Some pg)) =
        concat (map (\<lambda>b. fst (scrape_blocks lib self [b] ([], 0, 0))) (blocks pg))
   \<and> (\<forall>b. fst (scrape_blocks lib self [b] ([], 0, 0)) =
        (case b of
           None \<Rightarrow> []
         | Some data \<Rightarrow>
             concat (map (\<lambda>jev. fst (state_of (scrape_event lib self jev ([], 0, 0))))
                      (takeWhile (\<lambda>jev. is_Done (scrape_event lib self jev ([], 0, 0)))
                         (events_of data)))))"
proof -
  have c1: "(tok = None \<or> tok = Some [] \<longrightarrow>
        search_artist cat tok name = error_result name No_access_token)"
    by (blast intro: search_artist_no_token)
  have c2: "(tok \<noteq> None \<and> tok \<noteq> Some [] \<and> search cat (clean_artist_name name) = Request_failed e \<longrightarrow>
        search_artist cat tok name = error_result name (Search_error e))"
    by (blast intro: search_artist_request_failed)
  have c3: "(tok \<noteq> None \<and> tok \<noteq> Some [] \<and> search cat (clean_artist_name name) = No_artists_key d \<longrightarrow>
        search_artist cat tok name = error_result name (API_Error d))"
    by (blast intro: search_artist_api_error)
  have c4: "(tok \<noteq> None \<and> tok \<noteq> Some [] \<and> search cat (clean_artist_name name) = Artists [] \<longrightarrow>
        search_artist cat tok name = error_result name No_artist_found)"
    by (blast intro: search_artist_no_candidates)
  have c5: "(tok \<noteq> None \<and> tok \<noteq> Some [] \<and> search cat (clean_artist_name name) = Artists artists
        \<and> artists \<noteq> [] \<and> fst (best_match_for (ratio_of cat) artists name) = None \<longrightarrow>
        search_artist cat tok name = error_result name No_suitable_artist_found)"
    by (blast intro: search_artist_no_match)
  have c6: "error (error_result name reason) = Some reason"
    by (simp add: error_result_def)
  have c7: "searched_artist (error_result name reason) = name"
    by (simp add: error_result_def)
  have c8: "length (main_results cat tok performers_data) = length performers_data"
    by (simp add: main_results_def Let_def)
  have c9: "(\<forall>i < length performers_data.
        main_results cat tok performers_data ! i =
          lookup cat tok performers_data (up_performer_name (performers_data ! i)))"
    by (simp add: main_results_nth)
  have c9b: "(\<forall>i < length performers_data.
        (main_results cat tok performers_data ! i)
          \<lparr>result_venue := None, result_distance_miles := None\<rparr> =
          search_artist cat tok (up_performer_name (performers_data ! i)))"
    by (intro allI impI) (simp only: main_results_nth lookup_is_search_artist)
  have c10: "searched_artist (lookup cat tok performers_data a) = a"
    by (rule searched_artist_lookup)
  have c11: "scrape_blocks lib self (bs1 @ None # bs2) acc = scrape_blocks lib self (bs1 @ bs2) acc"
    by (rule scrape_blocks_malformed)
  have c12: "scrape_blocks lib self [None] ([], 0, 0) = ([], 0, 0)"
    by simp
  have c13: "(\<exists>performers event_count festival_count.
        scrape_page lib self (Some \<lparr>blocks = bs1 @ None # bs2, next_page = nx\<rparr>) =
          (performers, event_count, festival_count, Some \<lparr>blocks = bs1 @ None # bs2, next_page = nx\<rparr>)
        \<and> scrape_page lib self (Some \<lparr>blocks = bs1 @ bs2, next_page = nx\<rparr>) =
          (performers, event_count, festival_count, Some \<lparr>blocks = bs1 @ bs2, next_page = nx\<rparr>))"
    by (simp add: scrape_page_Some scrape_blocks_malformed)
  have c14: "get_next_page_url (Some \<lparr>blocks = bs1 @ None # bs2, next_page = nx\<rparr>) =
        get_next_page_url (Some \<lparr>blocks = bs1 @ bs2, next_page = nx\<rparr>)"
    by (simp add: get_next_page_url_def)
  have c15: "(\<not> is_Done (scrape_event lib self jev ([], 0, 0)) \<longrightarrow>
        scrape_events lib self (before @ jev # later) acc =
          scrape_events lib self (before @ [jev]) acc)"
    by (blast intro: scrape_events_raise)
  have c16: "(is_Done (scrape_event lib self jev ([], 0, 0)) \<longleftrightarrow>
        (case jev of
           EventOther \<Rightarrow> False
         | EventObj ev \<Rightarrow>
             length (performer_list_of ev) > FESTIVAL_PERFORMER_LIMIT
             \<or> extract_event_data lib self ev \<noteq> None))"
    by (simp add: scrape_event_def Let_def split: json_event.splits option.splits)
  have c17: "fst (scrape_page lib self (Some pg)) =
        concat (map (\<lambda>b. fst (scrape_blocks lib self [b] ([], 0, 0))) (blocks pg))"
    by (rule scrape_page_blockwise)
  have c18: "(\<forall>b. fst (scrape_blocks lib self [b] ([], 0, 0)) =
        (case b of
           None \<Rightarrow> []
         | Some data \<Rightarrow>
             concat (map (\<lambda>jev. fst (state_of (scrape_event lib self jev ([], 0, 0))))
                      (takeWhile (\<lambda>jev. is_Done (scrape_event lib self jev ([], 0, 0)))
                         (events_of data)))))"
    by (simp add: scrape_blocks_fst)
  from c1 c2 c3 c4 c5 c6 c7 c8 c9 c9b c10 c11 c12 c13 c14 c15 c16 c17 c18 show ?thesis by (intro conjI)
qed

text \<open>
  The claim that a failing block contributes zero events and that a failure of one item
  leaves its siblings alone fails: in a block of three events whose second has a location
  that is no object, the first event is kept (two events are counted) and the third, which
  on its own yields a performer, is lost.
\<close>

theorem block_failure_counterexample:
  "scrape_page
       \<lparr>fromisoformat = (\<lambda>s. None), localize = (\<lambda>dt. 0), instant_of = (\<lambda>dt. 0)\<rparr>
       \<lparr>scraper_lat = Num 42.004414, scraper_lon = Num (- 87.671304)\<rparr>
       (Some \<lparr>blocks = [Some (Many
         [EventObj \<lparr>ev_name = Some ''Gig'', ev_startDate = StartText ''2024-03-01'',
            ev_location = LocationObj \<lparr>location_name = Some (Text ''Hall''), location_geo = GeoFalsy\<rparr>,
            ev_performer = PerformerList [PerformerStr ''Ava'']\<rparr>,
          EventObj \<lparr>ev_name = Some ''Odd'', ev_startDate = StartText ''2024-03-01'',
            ev_location = LocationOther, ev_performer = PerformerList [PerformerStr ''Bo'']\<rparr>,
          EventObj \<lparr>ev_name = Some ''Gig'', ev_startDate = StartText ''2024-03-01'',
            ev_location = LocationObj \<lparr>location_name = Some (Text ''Club''), location_geo = GeoFalsy\<rparr>,
            ev_performer = PerformerList [PerformerStr ''Cy'']\<rparr>])],
        next_page = None\<rparr>)
     = ([\<lparr>venue = Some ''Hall'', event_name = ''Gig'', event_date = Some ''2024-03-01'',
          event_start_time = [], latitude = Absent, longitude = Absent,
          distance_miles = Unknown, performer_name = Some ''Ava''\<rparr>], 2, 0,
        Some \<lparr>blocks = [Some (Many
         [EventObj \<lparr>ev_name = Some ''Gig'', ev_startDate = StartText ''2024-03-01'',
            ev_location = LocationObj \<lparr>location_name = Some (Text ''Hall''), location_geo = GeoFalsy\<rparr>,
            ev_performer = PerformerList [PerformerStr ''Ava'']\<rparr>,
          EventObj \<lparr>ev_name = Some ''Odd'', ev_startDate = StartText ''2024-03-01'',
            ev_location = LocationOther, ev_performer = PerformerList [PerformerStr ''Bo'']\<rparr>,
          EventObj \<lparr>ev_name = Some ''Gig'', ev_startDate = StartText ''2024-03-01'',
            ev_location = LocationObj \<lparr>location_name = Some (Text ''Club''), location_geo = GeoFalsy\<rparr>,
            ev_performer = PerformerList [PerformerStr ''Cy'']\<rparr>])],
        next_page = None\<rparr>)
   \<and> scrape_page
       \<lparr>fromisoformat = (\<lambda>s. None), localize = (\<lambda>dt. 0), instant_of = (\<lambda>dt. 0)\<rparr>
       \<lparr>scraper_lat = Num 42.004414, scraper_lon = Num (- 87.671304)\<rparr>
       (Some \<lparr>blocks = [Some (Single
         (EventObj \<lparr>ev_name = Some ''Gig'', ev_startDate = StartText ''2024-03-01'',
            ev_location = LocationObj \<lparr>location_name = Some (Text ''Club''), location_geo = GeoFalsy\<rparr>,
            ev_performer = PerformerList [PerformerStr ''Cy'']\<rparr>))],
        next_page = None\<rparr>)
     = ([\<lparr>venue = Some ''Club'', event_name = ''Gig'', event_date = Some ''2024-03-01'',
          event_start_time = [], latitude = Absent, longitude = Absent,
          distance_miles = Unknown, performer_name = Some ''Cy''\<rparr>], 1, 0,
        Some \<lparr>blocks = [Some (Single
         (EventObj \<lparr>ev_name = Some ''Gig'', ev_startDate = StartText ''2024-03-01'',
            ev_location = LocationObj \<lparr>location_name = Some (Text ''Club''), location_geo = GeoFalsy\<rparr>,
            ev_performer = PerformerList [PerformerStr ''Cy'']\<rparr>))],
        next_page = None\<rparr>)"
  by (simp add: scrape_page_def events_of_def scrape_event_def performer_list_of_def
      extract_event_data_def FESTIVAL_PERFORMER_LIMIT_def performer_row_def
      calculate_distance_def get_default_def)

theorem failures_isolated_witness:
  "search_artist
       \<lparr>ratio_of = (\<lambda>a b. 0),
        search = (\<lambda>q. if q = ''Ava'' then Request_failed ''timeout''
                      else if q = ''Bo'' then Artists []
                      else if q = ''Cy'' then
                        Artists [\<lparr>artist_id = ''7'', artist_name = ''Cyrus'', followers_total = 3\<rparr>]
                      else No_artists_key ''{}''),
        get_artist_track = (\<lambda>i. None)\<rparr> None ''Ava'' = error_result ''Ava'' No_access_token
   \<and> search_artist
       \<lparr>ratio_of = (\<lambda>a b. 0),
        search = (\<lambda>q. if q = ''Ava'' then Request_failed ''timeout''
                      else if q = ''Bo'' then Artists []
                      else if q = ''Cy'' then
                        Artists [\<lparr>artist_id = ''7'', artist_name = ''Cyrus'', followers_total = 3\<rparr>]
                      else No_artists_key ''{}''),
        get_artist_track = (\<lambda>i. None)\<rparr> (Some ''token'') ''Ava'' = error_result ''Ava'' (Search_error ''timeout'')
   \<and> search_artist
       \<lparr>ratio_of = (\<lambda>a b. 0),
        search = (\<lambda>q. if q = ''Ava'' then Request_failed ''timeout''
                      else if q = ''Bo'' then Artists []
                      else if q = ''Cy'' then
                        Artists [\<lparr>artist_id = ''7'', artist_name = ''Cyrus'', followers_total = 3\<rparr>]
                      else No_artists_key ''{}''),
        get_artist_track = (\<lambda>i. None)\<rparr> (Some ''token'') ''Di'' = error_result ''Di'' (API_Error ''{}'')
   \<and> search_artist
       \<lparr>ratio_of = (\<lambda>a b. 0),
        search = (\<lambda>q. if q = ''Ava'' then Request_failed ''timeout''
                      else if q = ''Bo'' then Artists []
                      else if q = ''Cy'' then
                        Artists [\<lparr>artist_id = ''7'', artist_name = ''Cyrus'', followers_total = 3\<rparr>]
                      else No_artists_key ''{}''),
        get_artist_track = (\<lambda>i. None)\<rparr> (Some ''token'') ''Bo'' = error_result ''Bo'' No_artist_found
   \<and> search_artist
       \<lparr>ratio_of = (\<lambda>a b. 0),
        search = (\<lambda>q. if q = ''Ava'' then Request_failed ''timeout''
                      else if q = ''Bo'' then Artists []
                      else if q = ''Cy'' then
                        Artists [\<lparr>artist_id = ''7'', artist_name = ''Cyrus'', followers_total = 3\<rparr>]
                      else No_artists_key ''{}''),
        get_artist_track = (\<lambda>i. None)\<rparr> (Some ''token'') ''Cy'' = error_result ''Cy'' No_suitable_artist_found
   \<and> scrape_events
       \<lparr>fromisoformat = (\<lambda>s. None), localize = (\<lambda>dt. 0), instant_of = (\<lambda>dt. 0)\<rparr>
       \<lparr>scraper_lat = Num 42.004414, scraper_lon = Num (- 87.671304)\<rparr>
       [EventObj \<lparr>ev_name = Some ''Gig'', ev_startDate = StartText ''2024-03-01'',
            ev_location = LocationObj \<lparr>location_name = Some (Text ''Hall''), location_geo = GeoFalsy\<rparr>,
            ev_performer = PerformerList [PerformerStr ''Ava'']\<rparr>,
        EventObj \<lparr>ev_name = Some ''Odd'', ev_startDate = StartScalar,
            ev_location = LocationMissing, ev_performer = PerformerList [PerformerStr ''Bo'']\<rparr>,
        EventObj \<lparr>ev_name = Some ''Gig'', ev_startDate = StartText ''2024-03-01'',
            ev_location = LocationObj \<lparr>location_name = Some (Text ''Club''), location_geo = GeoFalsy\<rparr>,
            ev_performer = PerformerList [PerformerStr ''Cy'']\<rparr>] ([], 0, 0)
     = scrape_events
       \<lparr>fromisoformat = (\<lambda>s. None), localize = (\<lambda>dt. 0), instant_of = (\<lambda>dt. 0)\<rparr>
       \<lparr>scraper_lat = Num 42.004414, scraper_lon = Num (- 87.671304)\<rparr>
       [EventObj \<lparr>ev_name = Some ''Gig'', ev_startDate = StartText ''2024-03-01'',
            ev_location = LocationObj \<lparr>location_name = Some (Text ''Hall''), location_geo = GeoFalsy\<rparr>,
            ev_performer = PerformerList [PerformerStr ''Ava'']\<rparr>,
        EventObj \<lparr>ev_name = Some ''Odd'', ev_startDate = StartScalar,
            ev_location = LocationMissing, ev_performer = PerformerList [PerformerStr ''Bo'']\<rparr>] ([], 0, 0)"
  (is "search_artist ?cat None _ = _ \<and> _ \<and> _ \<and> _ \<and> _
       \<and> scrape_events ?lib ?self [EventObj ?g1, EventObj ?bad, EventObj ?g2] _ = _")
proof -
  let ?tok = "Some ''token''"
  note T = failures_isolated [of _ ?cat]
  have n1: "clean_artist_name ''Ava'' = ''Ava''" by code_simp
  have n2: "clean_artist_name ''Di'' = ''Di''" by code_simp
  have n3: "clean_artist_name ''Bo'' = ''Bo''" by code_simp
  have n4: "clean_artist_name ''Cy'' = ''Cy''" by code_simp
  have h1: "(None :: string option) = None \<or> (None :: string option) = Some []" by simp
  have h2: "?tok \<noteq> None \<and> ?tok \<noteq> Some [] \<and> search ?cat (clean_artist_name ''Ava'') = Request_failed ''timeout''"
    by (simp add: n1)
  have h3: "?tok \<noteq> None \<and> ?tok \<noteq> Some [] \<and> search ?cat (clean_artist_name ''Di'') = No_artists_key ''{}''"
    by (simp add: n2)
  have h4: "?tok \<noteq> None \<and> ?tok \<noteq> Some [] \<and> search ?cat (clean_artist_name ''Bo'') = Artists []"
    by (simp add: n3)
  have b: "fst (best_match_for (\<lambda>a b. 0)
      [\<lparr>artist_id = ''7'', artist_name = ''Cyrus'', followers_total = 3\<rparr>] ''Cy'') = None"
    by code_simp
  have h5: "?tok \<noteq> None \<and> ?tok \<noteq> Some []
      \<and> search ?cat (clean_artist_name ''Cy'') =
          Artists [\<lparr>artist_id = ''7'', artist_name = ''Cyrus'', followers_total = 3\<rparr>]
      \<and> [\<lparr>artist_id = ''7'', artist_name = ''Cyrus'', followers_total = 3\<rparr>] \<noteq> []
      \<and> fst (best_match_for (ratio_of ?cat)
            [\<lparr>artist_id = ''7'', artist_name = ''Cyrus'', followers_total = 3\<rparr>] ''Cy'') = None"
    using b by (simp add: n4)
  note c1 = T [THEN conjunct1, THEN mp, OF h1]
  note c2 = T [THEN conjunct2, THEN conjunct1, THEN mp, OF h2]
  note c3 = T [THEN conjunct2, THEN conjunct2, THEN conjunct1, THEN mp, OF h3]
  note c4 = T [THEN conjunct2, THEN conjunct2, THEN conjunct2, THEN conjunct1, THEN mp, OF h4]
  note c5 = T [THEN conjunct2, THEN conjunct2, THEN conjunct2, THEN conjunct2, THEN conjunct1,
      THEN mp, OF h5]
  have h6: "\<not> is_Done (scrape_event ?lib ?self (EventObj ?bad) ([], 0, 0))"
    by (simp add: scrape_event_def performer_list_of_def FESTIVAL_PERFORMER_LIMIT_def
        extract_event_data_def)
  note c6 = failures_isolated [where lib = ?lib and self = ?self and jev = "EventObj ?bad"
      and before = "[EventObj ?g1]" and later = "[EventObj ?g2]" and acc = "([], 0, 0)",
      THEN conjunct2, THEN conjunct2, THEN conjunct2, THEN conjunct2, THEN conjunct2, THEN conjunct2, THEN conjunct2, THEN conjunct2, THEN conjunct2, THEN conjunct2, THEN conjunct2, THEN conjunct2, THEN conjunct2, THEN conjunct2, THEN conjunct2, THEN conjunct1, THEN mp, OF h6,
      unfolded append.simps]
  from c1 c2 c3 c4 c5 c6 show ?thesis by (intro conjI)
qed

subsection \<open>The skip threshold\<close>

lemma approve_complete:
  assumes "\<forall>r \<in> set rs. error r = None \<longrightarrow>
             (\<exists>s u e. similarity r = Some s \<and> uri r = Some u \<and> exact_match r = Some e)"
  shows "\<exists>uris' st'. approve rs (uris, st) = Some (uris @ uris', st')
           \<and> map Some uris' =
               map uri (filter (\<lambda>r. error r = None
                                   \<and> (\<exists>s. similarity r = Some s \<and> s \<ge> SKIP_THRESHOLD)) rs)
           \<and> skipped st' = skipped st +
               length (filter (\<lambda>r. error r = None
                                   \<and> (\<exists>s. similarity r = Some s \<and> s < SKIP_THRESHOLD)) rs)
           \<and> exact st' + fuzzy st' = exact st + fuzzy st + length uris'"
  using assms
proof (induction rs arbitrary: uris st)
  case Nil
  show ?case by simp
next
  case (Cons r rs)
  from Cons.prems have rest: "\<forall>r \<in> set rs. error r = None \<longrightarrow>
             (\<exists>s u e. similarity r = Some s \<and> uri r = Some u \<and> exact_match r = Some e)"
    by simp
  show ?case
  proof (cases "error r = None")
    case False
    from Cons.IH [OF rest, of uris st] False show ?thesis by auto
  next
    case True
    with Cons.prems obtain s u e where
      r: "similarity r = Some s" "uri r = Some u" "exact_match r = Some e" by auto
    show ?thesis
    proof (cases "s \<ge> SKIP_THRESHOLD")
      case high: True
      let ?st = "if e then st\<lparr>exact := exact st + 1\<rparr> else st\<lparr>fuzzy := fuzzy st + 1\<rparr>"
      from Cons.IH [OF rest, of "uris @ [u]" ?st] obtain uris' st' where
        a: "approve rs (uris @ [u], ?st) = Some ((uris @ [u]) @ uris', st')"
        and b: "map Some uris' =
               map uri (filter (\<lambda>r. error r = None
                                   \<and> (\<exists>s. similarity r = Some s \<and> s \<ge> SKIP_THRESHOLD)) rs)"
        and c: "skipped st' = skipped ?st +
               length (filter (\<lambda>r. error r = None
                                   \<and> (\<exists>s. similarity r = Some s \<and> s < SKIP_THRESHOLD)) rs)"
        and d: "exact st' + fuzzy st' = exact ?st + fuzzy ?st + length uris'"
        by blast
      have a': "approve (r # rs) (uris, st) = Some (uris @ (u # uris'), st')"
        using True r high a by simp
      have b': "map Some (u # uris') =
               map uri (filter (\<lambda>r. error r = None
                                   \<and> (\<exists>s. similarity r = Some s \<and> s \<ge> SKIP_THRESHOLD)) (r # rs))"
        using True r high b by simp
      have c': "skipped st' = skipped st +
               length (filter (\<lambda>r. error r = None
                                   \<and> (\<exists>s. similarity r = Some s \<and> s < SKIP_THRESHOLD)) (r # rs))"
        using True r high c by (cases e) simp_all
      have d': "exact st' + fuzzy st' = exact st + fuzzy st + length (u # uris')"
        using d by (cases e) simp_all
      from a' b' c' d' show ?thesis by blast
    next
      case low: False
      let ?st = "st\<lparr>skipped := skipped st + 1\<rparr>"
      from Cons.IH [OF rest, of uris ?st] obtain uris' st' where
        a: "approve rs (uris, ?st) = Some (uris @ uris', st')"
        and b: "map Some uris' =
               map uri (filter (\<lambda>r. error r = None
                                   \<and> (\<exists>s. similarity r = Some s \<and> s \<ge> SKIP_THRESHOLD)) rs)"
        and c: "skipped st' = skipped ?st +
               length (filter (\<lambda>r. error r = None
                                   \<and> (\<exists>s. similarity r = Some s \<and> s < SKIP_THRESHOLD)) rs)"
        and d: "exact st' + fuzzy st' = exact ?st + fuzzy ?st + length uris'"
        by blast
      have a': "approve (r # rs) (uris, st) = Some (uris @ uris', st')"
        using True r low a by simp
      have b': "map Some uris' =
               map uri (filter (\<lambda>r. error r = None
                                   \<and> (\<exists>s. similarity r = Some s \<and> s \<ge> SKIP_THRESHOLD)) (r # rs))"
        using True r low b by simp
      have c': "skipped st' = skipped st +
               length (filter (\<lambda>r. error r = None
                                   \<and> (\<exists>s. similarity r = Some s \<and> s < SKIP_THRESHOLD)) (r # rs))"
        using True r low c by simp
      have d': "exact st' + fuzzy st' = exact st + fuzzy st + length uris'"
        using d by simp
      from a' b' c' d' show ?thesis by blast
    qed
  qed
qed

lemma three_way_count:
  assumes "\<forall>r \<in> set rs. error r = None \<longrightarrow>
             (\<exists>s u e. similarity r = Some s \<and> uri r = Some u \<and> exact_match r = Some e)"
  shows "length (filter (\<lambda>r. error r \<noteq> None) rs)
         + length (filter (\<lambda>r. error r = None
                                   \<and> (\<exists>s. similarity r = Some s \<and> s < SKIP_THRESHOLD)) rs)
         + length (filter (\<lambda>r. error r = None
                                   \<and> (\<exists>s. similarity r = Some s \<and> s \<ge> SKIP_THRESHOLD)) rs)
         = length rs"
  using assms
proof (induction rs)
  case Nil
  show ?case by simp
next
  case (Cons r rs)
  then have ih: "length (filter (\<lambda>r. error r \<noteq> None) rs)
         + length (filter (\<lambda>r. error r = None
                                   \<and> (\<exists>s. similarity r = Some s \<and> s < SKIP_THRESHOLD)) rs)
         + length (filter (\<lambda>r. error r = None
                                   \<and> (\<exists>s. similarity r = Some s \<and> s \<ge> SKIP_THRESHOLD)) rs)
         = length rs" by simp
  show ?case
  proof (cases "error r = None")
    case False
    with ih show ?thesis by simp
  next
    case True
    with Cons.prems obtain s where s: "similarity r = Some s" by auto
    show ?thesis
    proof (cases "s < SKIP_THRESHOLD")
      case True
      with \<open>error r = None\<close> s ih show ?thesis by simp
    next
      case False
      then have "s \<ge> SKIP_THRESHOLD" by simp
      with False \<open>error r = None\<close> s ih show ?thesis by simp
    qed
  qed
qed

lemma length_filter_results_sorted:
  "length (filter P (results_sorted results)) = length (filter P results)"
  by (simp add: results_sorted_def filter_sort)

lemma search_artist_complete:
  "error (search_artist cat tok name) = None \<Longrightarrow>
     \<exists>s u e. similarity (search_artist cat tok name) = Some s
       \<and> uri (search_artist cat tok name) = Some u
       \<and> exact_match (search_artist cat tok name) = Some e"
  by (auto simp: search_artist_def error_result_def Let_def
      split: if_splits search_response.splits option.splits prod.splits)

lemma main_results_complete:
  "\<forall>r \<in> set (main_results cat tok performers_data). error r = None \<longrightarrow>
     (\<exists>s u e. similarity r = Some s \<and> uri r = Some u \<and> exact_match r = Some e)"
  using search_artist_complete [of cat tok]
  by (auto simp: main_results_def lookup_def Let_def)

text \<open>
  C6. The skip threshold is 0.70. For results in which every match carries its score, track
  and tier (as every result of the lookups does): the tracks of the playlist are those of the
  results without error whose score is at least the threshold, in the order of the
  ranking; a result without error whose score is strictly below the threshold adds no track
  and is counted as skipped; errors, skipped results and tracks add up to the number of
  results, so a skipped result is not counted as an error.
\<close>

theorem skipped_below_threshold:
  assumes complete: "\<forall>r \<in> set results. error r = None \<longrightarrow>
             (\<exists>s u e. similarity r = Some s \<and> uri r = Some u \<and> exact_match r = Some e)"
  shows "SKIP_THRESHOLD = 0.70
    \<and> (\<exists>approved_uris st.
          playlist_tracks results = Some (approved_uris, st)
          \<and> map Some approved_uris =
              map uri (filter (\<lambda>r. error r = None
                                  \<and> (\<exists>s. similarity r = Some s \<and> s \<ge> SKIP_THRESHOLD))
                        (results_sorted results))
          \<and> skipped st =
              length (filter (\<lambda>r. error r = None
                                  \<and> (\<exists>s. similarity r = Some s \<and> s < SKIP_THRESHOLD)) results)
          \<and> exact st + fuzzy st = length approved_uris
          \<and> count_errors results + skipped st + length approved_uris = length results)"
proof -
  let ?ok = "\<lambda>r. error r = None \<and> (\<exists>s. similarity r = Some s \<and> s \<ge> SKIP_THRESHOLD)"
  let ?low = "\<lambda>r. error r = None \<and> (\<exists>s. similarity r = Some s \<and> s < SKIP_THRESHOLD)"
  have "set (results_sorted results) = set results" by (simp add: results_sorted_def)
  with complete have "\<forall>r \<in> set (results_sorted results). error r = None \<longrightarrow>
             (\<exists>s u e. similarity r = Some s \<and> uri r = Some u \<and> exact_match r = Some e)"
    by simp
  from approve_complete [OF this, of "[]" "\<lparr>exact = 0, fuzzy = 0, skipped = 0\<rparr>"]
  obtain uris st where
    a: "playlist_tracks results = Some (uris, st)"
    and b: "map Some uris = map uri (filter ?ok (results_sorted results))"
    and c: "skipped st = length (filter ?low (results_sorted results))"
    and d: "exact st + fuzzy st = length uris"
    unfolding playlist_tracks_def by auto
  from c have c': "skipped st = length (filter ?low results)"
    by (simp only: length_filter_results_sorted)
  from b have "length (map Some uris) = length (map uri (filter ?ok (results_sorted results)))"
    by simp
  then have len: "length uris = length (filter ?ok results)"
    by (simp only: length_map length_filter_results_sorted)
  have e: "count_errors results + skipped st + length uris = length results"
    unfolding count_errors_def c' len by (rule three_way_count [OF complete])
  have t: "SKIP_THRESHOLD = 0.70" by (simp add: SKIP_THRESHOLD_def)
  from a b c' d e have "\<exists>approved_uris st.
          playlist_tracks results = Some (approved_uris, st)
          \<and> map Some approved_uris = map uri (filter ?ok (results_sorted results))
          \<and> skipped st = length (filter ?low results)
          \<and> exact st + fuzzy st = length approved_uris
          \<and> count_errors results + skipped st + length approved_uris = length results"
    by blast
  with t show ?thesis by (rule conjI)
qed

theorem skipped_below_threshold_witness:
  "playlist_tracks
      [\<lparr>searched_artist = ''Ava'', found_artist = Some ''Eva'', uri = Some ''spotify:track:a'', exact_match = Some False,
        similarity = Some 0.65, had_region_identifier = Some False, error = None,
        result_venue = Some (Some ''Near Club''), result_distance_miles = Some (Miles 1.1)\<rparr>,
       \<lparr>searched_artist = ''Bo'', found_artist = Some ''Boh'', uri = Some ''spotify:track:b'', exact_match = Some False,
        similarity = Some 0.70, had_region_identifier = Some False, error = None,
        result_venue = Some (Some ''Far Hall''), result_distance_miles = Some (Miles 3.2)\<rparr>,
       \<lparr>searched_artist = ''Cy'', found_artist = None, uri = None, exact_match = None,
        similarity = None, had_region_identifier = None, error = Some No_artist_found,
        result_venue = Some (Some ''Bar''), result_distance_miles = Some (Miles 2)\<rparr>]
     = Some ([''spotify:track:b''], \<lparr>exact = 0, fuzzy = 1, skipped = 1\<rparr>)
   \<and> count_errors
      [\<lparr>searched_artist = ''Ava'', found_artist = Some ''Eva'', uri = Some ''spotify:track:a'', exact_match = Some False,
        similarity = Some 0.65, had_region_identifier = Some False, error = None,
        result_venue = Some (Some ''Near Club''), result_distance_miles = Some (Miles 1.1)\<rparr>,
       \<lparr>searched_artist = ''Bo'', found_artist = Some ''Boh'', uri = Some ''spotify:track:b'', exact_match = Some False,
        similarity = Some 0.70, had_region_identifier = Some False, error = None,
        result_venue = Some (Some ''Far Hall''), result_distance_miles = Some (Miles 3.2)\<rparr>,
       \<lparr>searched_artist = ''Cy'', found_artist = None, uri = None, exact_match = None,
        similarity = None, had_region_identifier = None, error = Some No_artist_found,
        result_venue = Some (Some ''Bar''), result_distance_miles = Some (Miles 2)\<rparr>] = 1"
  (is "playlist_tracks ?rs = _ \<and> _")
proof -
  have complete: "\<forall>r \<in> set ?rs. error r = None \<longrightarrow>
             (\<exists>s u e. similarity r = Some s \<and> uri r = Some u \<and> exact_match r = Some e)"
    by (auto simp del: eq_divide_eq_numeral1 divide_eq_eq_numeral1)
  have e: "playlist_tracks ?rs = Some ([''spotify:track:b''], \<lparr>exact = 0, fuzzy = 1, skipped = 1\<rparr>)"
    by (simp add: playlist_tracks_def results_sorted_def get_distance_def get_default_def
        distance_sort_def SKIP_THRESHOLD_def)
  from skipped_below_threshold [OF complete, THEN conjunct2] obtain uris st where
    a: "playlist_tracks ?rs = Some (uris, st)"
    and b: "count_errors ?rs + skipped st + length uris = length ?rs" by blast
  from a have "uris = [''spotify:track:b'']" and "st = \<lparr>exact = 0, fuzzy = 1, skipped = 1\<rparr>"
    unfolding e by simp_all
  with b have "count_errors ?rs = 1" by simp
  with e show ?thesis by (rule conjI)
qed

subsection \<open>Shape of a match result\<close>

text \<open>
  C8, as the code has it. A result of artist resolution carries an error reason or a track
  URI, never both and never neither. A result with a URI carries the resolved name, the tier
  and the score and no error; a result with an error carries no URI, tier or score. It
  carries the resolved catalog name exactly when the error is \<open>No tracks found\<close>: the
  artist was found and has no playable track.
\<close>

theorem result_error_xor_track:
  "let r = search_artist cat tok name
   in searched_artist r = name
      \<and> (error r = None \<longleftrightarrow> uri r \<noteq> None)
      \<and> (error r = None \<longrightarrow>
            found_artist r \<noteq> None \<and> exact_match r \<noteq> None \<and> similarity r \<noteq> None
            \<and> had_region_identifier r \<noteq> None)
      \<and> (error r \<noteq> None \<longrightarrow>
            uri r = None \<and> exact_match r = None \<and> similarity r = None
            \<and> had_region_identifier r = None)
      \<and> (error r \<noteq> None \<longrightarrow> (found_artist r \<noteq> None \<longleftrightarrow> error r = Some No_tracks_found))"
  unfolding Let_def
  by (auto simp: search_artist_def error_result_def Let_def
      split: if_splits search_response.splits option.splits prod.splits)

text \<open>
  The claim that a result with an error reason carries no resolved catalog name fails: for
  an artist that is found and has no track, the result names the artist found and the error
  \<open>No tracks found\<close>.
\<close>

theorem error_with_found_artist_counterexample:
  "error (search_artist
      \<lparr>ratio_of = (\<lambda>a b. 0),
       search = (\<lambda>q. Artists [\<lparr>artist_id = ''7'', artist_name = ''Ava'', followers_total = 3\<rparr>]),
       get_artist_track = (\<lambda>i. None)\<rparr>
      (Some ''token'') ''Ava'') = Some No_tracks_found
   \<and> found_artist (search_artist
      \<lparr>ratio_of = (\<lambda>a b. 0),
       search = (\<lambda>q. Artists [\<lparr>artist_id = ''7'', artist_name = ''Ava'', followers_total = 3\<rparr>]),
       get_artist_track = (\<lambda>i. None)\<rparr>
      (Some ''token'') ''Ava'') = Some ''Ava''"
proof -
  have "find_best_match (\<lambda>a b. 0)
      [\<lparr>artist_id = ''7'', artist_name = ''Ava'', followers_total = 3\<rparr>] ''Ava''
      (clean_artist_name ''Ava'') (has_region_identifier ''Ava'')
    = (Some \<lparr>artist_id = ''7'', artist_name = ''Ava'', followers_total = 3\<rparr>, True, 1)"
    by code_simp
  then show ?thesis
    by (simp add: search_artist_def error_result_def Let_def)
qed

theorem result_error_xor_track_witness:
  "error (search_artist
      \<lparr>ratio_of = (\<lambda>a b. 0),
       search = (\<lambda>q. Artists [\<lparr>artist_id = ''7'', artist_name = ''Ava'', followers_total = 3\<rparr>]),
       get_artist_track = (\<lambda>i. Some \<lparr>track_uri = ''spotify:track:a''\<rparr>)\<rparr>
      (Some ''token'') ''Ava'') = None
   \<and> uri (search_artist
      \<lparr>ratio_of = (\<lambda>a b. 0),
       search = (\<lambda>q. Artists [\<lparr>artist_id = ''7'', artist_name = ''Ava'', followers_total = 3\<rparr>]),
       get_artist_track = (\<lambda>i. Some \<lparr>track_uri = ''spotify:track:a''\<rparr>)\<rparr>
      (Some ''token'') ''Ava'') \<noteq> None
   \<and> found_artist (search_artist
      \<lparr>ratio_of = (\<lambda>a b. 0),
       search = (\<lambda>q. Artists [\<lparr>artist_id = ''7'', artist_name = ''Ava'', followers_total = 3\<rparr>]),
       get_artist_track = (\<lambda>i. Some \<lparr>track_uri = ''spotify:track:a''\<rparr>)\<rparr>
      (Some ''token'') ''Ava'') \<noteq> None
   \<and> error (search_artist
      \<lparr>ratio_of = (\<lambda>a b. 0),
       search = (\<lambda>q. Artists [\<lparr>artist_id = ''7'', artist_name = ''Ava'', followers_total = 3\<rparr>]),
       get_artist_track = (\<lambda>i. Some \<lparr>track_uri = ''spotify:track:a''\<rparr>)\<rparr>
      None ''Ava'') \<noteq> None
   \<and> uri (search_artist
      \<lparr>ratio_of = (\<lambda>a b. 0),
       search = (\<lambda>q. Artists [\<lparr>artist_id = ''7'', artist_name = ''Ava'', followers_total = 3\<rparr>]),
       get_artist_track = (\<lambda>i. Some \<lparr>track_uri = ''spotify:track:a''\<rparr>)\<rparr>
      None ''Ava'') = None"
  (is "error (search_artist ?cat ?tok _) = None \<and> _")
proof -
  note T1 = result_error_xor_track [of ?cat ?tok "''Ava''", unfolded Let_def]
  note T2 = result_error_xor_track [of ?cat None "''Ava''", unfolded Let_def]
  have "find_best_match (\<lambda>a b. 0)
      [\<lparr>artist_id = ''7'', artist_name = ''Ava'', followers_total = 3\<rparr>] ''Ava''
      (clean_artist_name ''Ava'') (has_region_identifier ''Ava'')
    = (Some \<lparr>artist_id = ''7'', artist_name = ''Ava'', followers_total = 3\<rparr>, True, 1)"
    by code_simp
  then have h1: "error (search_artist ?cat ?tok ''Ava'') = None"
    by (simp add: search_artist_def Let_def)
  have h2: "error (search_artist ?cat None ''Ava'') \<noteq> None"
    by (simp add: search_artist_def error_result_def)
  from T1 [THEN conjunct2, THEN conjunct1] h1
  have c1: "uri (search_artist ?cat ?tok ''Ava'') \<noteq> None" by blast
  from T1 [THEN conjunct2, THEN conjunct2, THEN conjunct1, THEN mp, OF h1]
  have c2: "found_artist (search_artist ?cat ?tok ''Ava'') \<noteq> None" by blast
  from T2 [THEN conjunct2, THEN conjunct2, THEN conjunct2, THEN conjunct1, THEN mp, OF h2]
  have c3: "uri (search_artist ?cat None ''Ava'') = None" by blast
  from h1 c1 c2 h2 c3 show ?thesis by (intro conjI)
qed

subsection \<open>The distance\<close>

lemma sin_half_diff_sq: "(sin ((x - y) / 2))\<^sup>2 = (sin ((y - x) / 2 :: real))\<^sup>2"
proof -
  have "(x - y) / 2 = - ((y - x) / 2)" by (simp add: field_simps)
  then have "sin ((x - y) / 2) = - sin ((y - x) / 2)" by (simp only: sin_minus)
  then show ?thesis by simp
qed

lemma calculate_distance_symmetric:
  "calculate_distance lat1 lon1 lat2 lon2 = calculate_distance lat2 lon2 lat1 lon1"
proof (cases "truthy lat1 \<and> truthy lon1 \<and> truthy lat2 \<and> truthy lon2")
  case False
  then show ?thesis by (auto simp: calculate_distance_def)
next
  case True
  show ?thesis
  proof (cases "to_float lat1 = None \<or> to_float lon1 = None \<or> to_float lat2 = None \<or> to_float lon2 = None")
    case True
    then show ?thesis
      by (auto simp: calculate_distance_def split: option.splits)
  next
    case False
    then obtain a1 o1 a2 o2 where
      f: "to_float lat1 = Some a1" "to_float lon1 = Some o1"
         "to_float lat2 = Some a2" "to_float lon2 = Some o2" by auto
    have "(sin ((radians a2 - radians a1) / 2))\<^sup>2
            + cos (radians a1) * cos (radians a2) * (sin ((radians o2 - radians o1) / 2))\<^sup>2
        = (sin ((radians a1 - radians a2) / 2))\<^sup>2
            + cos (radians a2) * cos (radians a1) * (sin ((radians o1 - radians o2) / 2))\<^sup>2"
      by (simp add: sin_half_diff_sq [of "radians a2" "radians a1"]
          sin_half_diff_sq [of "radians o2" "radians o1"] mult.commute)
    with True f show ?thesis
      by (simp add: calculate_distance_def Let_def)
  qed
qed

lemma calculate_distance_missing:
  "\<not> truthy lat1 \<or> \<not> truthy lon1 \<or> \<not> truthy lat2 \<or> \<not> truthy lon2
     \<or> to_float lat1 = None \<or> to_float lon1 = None \<or> to_float lat2 = None \<or> to_float lon2 = None
   \<Longrightarrow> calculate_distance lat1 lon1 lat2 lon2 = Unknown"
  by (auto simp: calculate_distance_def split: option.splits)

lemma sin_sq_bounds: "0 \<le> (sin (x :: real))\<^sup>2 \<and> (sin x)\<^sup>2 \<le> 1"
proof -
  have "(sin x)\<^sup>2 + (cos x)\<^sup>2 = 1" by (rule sin_cos_squared_add)
  moreover have "0 \<le> (cos x)\<^sup>2" "0 \<le> (sin x)\<^sup>2" by simp_all
  ultimately show ?thesis by linarith
qed

lemma haversine_bounds:
  fixes p q e :: real
  defines "a \<equiv> (sin ((q - p) / 2))\<^sup>2 + cos p * cos q * (sin (e / 2))\<^sup>2"
  shows "0 \<le> a \<and> a \<le> 1"
proof -
  let ?s = "(sin ((q - p) / 2))\<^sup>2" and ?c = "cos p * cos q" and ?t = "(sin (e / 2))\<^sup>2"
  have t: "0 \<le> ?t" "?t \<le> 1" using sin_sq_bounds [of "e / 2"] by simp_all
  have s: "0 \<le> ?s" "?s \<le> 1" using sin_sq_bounds [of "(q - p) / 2"] by simp_all
  have "2 * ((q - p) / 2) = q - p" by simp
  with cos_double_sin [of "(q - p) / 2"] have cd: "cos (q - p) = 1 - 2 * ?s"
    by (simp only:)
  have "cos (q - p) = cos q * cos p + sin q * sin p" by (rule cos_diff)
  moreover have "cos (q + p) = cos q * cos p - sin q * sin p" by (rule cos_add)
  ultimately have c2: "2 * ?c = cos (q - p) + cos (q + p)" by (simp add: mult.commute)
  have "cos (q + p) \<le> 1" "- 1 \<le> cos (q + p)" by simp_all
  with c2 cd have up: "?c \<le> 1 - ?s" and lo: "- ?s \<le> ?c" by linarith+
  have ct_up: "?c * ?t \<le> 1 - ?s"
  proof (cases "0 \<le> ?c")
    case True
    then have "?c * ?t \<le> ?c * 1" using t by (intro mult_left_mono) auto
    with up show ?thesis by simp
  next
    case False
    then have "?c \<le> 0" by simp
    then have "?c * ?t \<le> 0" using t(1) by (rule mult_nonpos_nonneg)
    with s show ?thesis by linarith
  qed
  have ct_lo: "- ?s \<le> ?c * ?t"
  proof (cases "0 \<le> ?c")
    case True
    then have "0 \<le> ?c * ?t" using t(1) by (rule mult_nonneg_nonneg)
    with s show ?thesis by linarith
  next
    case False
    then have "?c * 1 \<le> ?c * ?t" using t by (intro mult_left_mono_neg) auto
    with lo show ?thesis by simp
  qed
  from ct_up ct_lo show ?thesis unfolding a_def by linarith
qed

lemma calculate_distance_numeric:
  assumes "truthy lat1" "truthy lon1" "truthy lat2" "truthy lon2"
    and "to_float lat1 = Some a1" "to_float lon1 = Some o1"
        "to_float lat2 = Some a2" "to_float lon2 = Some o2"
  shows "calculate_distance lat1 lon1 lat2 lon2 =
     Miles (round2 (2 * 3956 * arcsin (sqrt
        ((sin ((radians a2 - radians a1) / 2))\<^sup>2
          + cos (radians a1) * cos (radians a2) * (sin ((radians o2 - radians o1) / 2))\<^sup>2))))"
  using assms haversine_bounds [of "radians a2" "radians a1" "radians o2 - radians o1"]
  by (simp add: calculate_distance_def Let_def)

text \<open>
  C7. The distance is to be the unknown sentinel exactly when a coordinate is missing or is
  not numeric, and the rounded haversine distance otherwise. Over the reals the code is
  symmetric (lemma \<open>calculate_distance_symmetric\<close>), answers the sentinel for a missing or
  non-numeric coordinate (\<open>calculate_distance_missing\<close>) and the rounded haversine distance
  for four truthy numeric ones (\<open>calculate_distance_numeric\<close>). It fails at a coordinate
  that is present, numeric and zero: \<open>all([...])\<close> reads the number 0 as false, so a venue
  on the prime meridian (or on the equator) gets the unknown distance although \<open>float()\<close>
  converts each of the four coordinates.
\<close>

theorem zero_coordinate_unknown:
  "to_float (Num 42.004414) \<noteq> None \<and> to_float (Num (- 87.671304)) \<noteq> None
   \<and> to_float (Num 51.4779) \<noteq> None \<and> to_float (Num 0) \<noteq> None
   \<and> calculate_distance (Num 42.004414) (Num (- 87.671304)) (Num 51.4779) (Num 0) = Unknown"
  by (simp add: calculate_distance_def)

end
